theory Spec2Isabelle
  imports Main "HOL-Library.Sublist"
begin

section \<open>C strings, numbers and tokens\<close>

text \<open>
  The three programs of the repository (the coordinator \<open>Smain\<close>, the backend \<open>Spdf\<close> and
  the client) are C programs over blocking sockets. A C string is modelled by the
  characters before its terminator; a buffer that holds received bytes is a \<open>string\<close>
  that may contain the terminator \<open>NUL\<close>.
\<close>

abbreviation BUFFER_SIZE :: nat where
  "BUFFER_SIZE \<equiv> 1024"

definition NUL :: char where
  "NUL = CHR 0x00"

text \<open>The C string held by a buffer: everything before the first terminator.\<close>

definition c_str :: "string \<Rightarrow> string" where
  "c_str buf = takeWhile (\<lambda>c. c \<noteq> NUL) buf"

text \<open>
  \<open>send(socket, "literal", n, 0)\<close>: the first \<open>n\<close> bytes of a string literal, whose
  storage ends with one terminator.
\<close>

definition c_literal :: "string \<Rightarrow> nat \<Rightarrow> string" where
  "c_literal s n = take n (s @ [NUL])"

text \<open>\<open>strrchr(s, c)\<close>: the suffix of \<open>s\<close> that starts at the last \<open>c\<close>, or NULL.\<close>

fun strrchr :: "string \<Rightarrow> char \<Rightarrow> string option" where
  "strrchr [] c = None"
| "strrchr (x # xs) c =
     (case strrchr xs c of
        Some r \<Rightarrow> Some r
      | None \<Rightarrow> if x = c then Some (x # xs) else None)"

text \<open>
  \<open>pieces d tok s\<close> cuts \<open>s\<close> at the delimiter \<open>d\<close> and drops empty pieces;
  \<open>tok\<close> is the piece being scanned. \<open>tokenize_command\<close> is \<open>strtok\<close> with the
  delimiter \<open>" "\<close>: runs of spaces separate tokens and no token is empty.
\<close>

fun pieces :: "char \<Rightarrow> string \<Rightarrow> string \<Rightarrow> string list" where
  "pieces d tok [] = (if tok = [] then [] else [tok])"
| "pieces d tok (c # cs) =
     (if c = d then (if tok = [] then pieces d [] cs else tok # pieces d [] cs)
      else pieces d (tok @ [c]) cs)"

definition tokenize_command :: "string \<Rightarrow> string list" where
  "tokenize_command cmd_str = pieces (CHR '' '') [] cmd_str"

text \<open>\<open>int x = (long) n\<close>: the conversion of a size to the 32-bit \<open>int\<close> of the platform.\<close>

definition to_int32 :: "int \<Rightarrow> int" where
  "to_int32 n = (n + 2 ^ 31) mod 2 ^ 32 - 2 ^ 31"

text \<open>\<open>size_t x = (int) n\<close>: the conversion of an \<open>int\<close> to the 64-bit unsigned \<open>size_t\<close>.\<close>

definition to_size_t :: "int \<Rightarrow> int" where
  "to_size_t n = n mod 2 ^ 64"

text \<open>\<open>sprintf(buf, "%d", n)\<close>.\<close>

definition digit_char :: "nat \<Rightarrow> char" where
  "digit_char d = ''0123456789'' ! d"

fun show_nat :: "nat \<Rightarrow> string" where
  "show_nat n = (if n < 10 then [digit_char n] else show_nat (n div 10) @ [digit_char (n mod 10)])"

declare show_nat.simps [simp del]

definition show_int :: "int \<Rightarrow> string" where
  "show_int i = (if i < 0 then CHR ''-'' # show_nat (nat (- i)) else show_nat (nat i))"

text \<open>
  \<open>strtol(s, NULL, 10)\<close>: leading white space, an optional sign, then decimal digits up
  to the first character that is not one; no digits give 0. A value that the 64-bit
  \<open>long\<close> cannot hold is replaced by the nearest one it can.
\<close>

definition is_space :: "char \<Rightarrow> bool" where
  "is_space c = (c \<in> set [CHR '' '', CHR 0x09, CHR 0x0A, CHR 0x0B, CHR 0x0C, CHR 0x0D])"

definition is_digit :: "char \<Rightarrow> bool" where
  "is_digit c = (of_char (CHR ''0'') \<le> (of_char c :: nat) \<and> (of_char c :: nat) \<le> of_char (CHR ''9''))"

definition digit_val :: "char \<Rightarrow> int" where
  "digit_val c = int (of_char c) - int (of_char (CHR ''0''))"

fun atoi_digits :: "int \<Rightarrow> string \<Rightarrow> int" where
  "atoi_digits acc [] = acc"
| "atoi_digits acc (c # cs) = (if is_digit c then atoi_digits (acc * 10 + digit_val c) cs else acc)"

definition strtol :: "string \<Rightarrow> int" where
  "strtol s =
     (let v = (case dropWhile is_space s of
                 [] \<Rightarrow> 0
               | c # cs \<Rightarrow>
                   if c = CHR ''-'' then - atoi_digits 0 cs
                   else if c = CHR ''+'' then atoi_digits 0 cs
                   else atoi_digits 0 (c # cs))
      in if v < - (2 ^ 63) then - (2 ^ 63) else if 2 ^ 63 - 1 < v then 2 ^ 63 - 1 else v)"

text \<open>
  \<open>atoi\<close>, as the C library computes it: \<open>(int) strtol(s, NULL, 10)\<close>. Every caller
  in the three programs stores the result in an \<open>int\<close>, or converts that \<open>int\<close> further.
\<close>

definition atoi :: "string \<Rightarrow> int" where
  "atoi s = to_int32 (strtol s)"

section \<open>Sockets\<close>

text \<open>
  A process sees each connected socket as a script: what its successive \<open>recv\<close> calls
  return, what its successive \<open>send\<close> calls return, and the frames it has written.
  \<open>RecvOk d\<close> is a \<open>recv\<close> that returns \<open>length d\<close> bytes; \<open>RecvOk []\<close> is the return
  value 0 of a closed connection, and a script that has run out is a connection the
  peer has closed. \<open>RecvErr\<close> is the return value -1. \<open>is_open\<close> becomes false when
  the process itself calls \<open>close\<close>.
\<close>

datatype recv_result = RecvErr | RecvOk string

record sock =
  rx :: "recv_result list"
  tx_ok :: "bool list"
  tx :: "string list"
  is_open :: bool

text \<open>
  The descriptors the programs hold: a server's connection to its peer (\<open>Client\<close>), the
  coordinator's two global connections to the backends, and the client's connection to
  the coordinator.
\<close>

datatype fd = Client | Stext | Spdf | Smain

text \<open>A file system entry: a regular file, a directory with its entries in \<open>readdir\<close> order,
  or an entry of another type.\<close>

datatype node = Reg string | Dir "(string \<times> node) list" | Other

record world =
  fs :: node
  socks :: "fd \<Rightarrow> sock"
  tar_util :: "node \<Rightarrow> string \<Rightarrow> string option"

definition close_fd :: "world \<Rightarrow> fd \<Rightarrow> world" where
  "close_fd w d = w\<lparr>socks := (socks w)(d := (socks w d)\<lparr>is_open := False\<rparr>)\<rparr>"

definition set_sock :: "world \<Rightarrow> fd \<Rightarrow> sock \<Rightarrow> world" where
  "set_sock w d s = w\<lparr>socks := (socks w)(d := s)\<rparr>"

text \<open>\<open>send(d, msg, length msg, 0)\<close>: the number of bytes written, or -1.\<close>

definition send :: "world \<Rightarrow> fd \<Rightarrow> string \<Rightarrow> int \<times> world" where
  "send w d msg =
     (let s = socks w d in
      case tx_ok s of
        [] \<Rightarrow> (int (length msg), set_sock w d (s\<lparr>tx := tx s @ [msg]\<rparr>))
      | ok # oks \<Rightarrow>
          if ok then (int (length msg), set_sock w d (s\<lparr>tx_ok := oks, tx := tx s @ [msg]\<rparr>))
          else (-1, set_sock w d (s\<lparr>tx_ok := oks\<rparr>)))"

text \<open>
  \<open>recv(d, buf, BUFFER_SIZE, 0)\<close>: at most \<open>BUFFER_SIZE\<close> bytes of what the peer has
  written; the rest stays for the next call.
\<close>

definition recv :: "world \<Rightarrow> fd \<Rightarrow> recv_result \<times> world" where
  "recv w d =
     (let s = socks w d in
      case rx s of
        [] \<Rightarrow> (RecvOk [], w)
      | RecvErr # rs \<Rightarrow> (RecvErr, set_sock w d (s\<lparr>rx := rs\<rparr>))
      | RecvOk bs # rs \<Rightarrow>
          if length bs \<le> BUFFER_SIZE then (RecvOk bs, set_sock w d (s\<lparr>rx := rs\<rparr>))
          else (RecvOk (take BUFFER_SIZE bs),
                set_sock w d (s\<lparr>rx := RecvOk (drop BUFFER_SIZE bs) # rs\<rparr>)))"

text \<open>The \<open>int\<close> a \<open>recv\<close> returns, and the bytes it left in the buffer.\<close>

fun nbytes :: "recv_result \<Rightarrow> int" where
  "nbytes RecvErr = -1"
| "nbytes (RecvOk bs) = int (length bs)"

fun payload :: "recv_result \<Rightarrow> string" where
  "payload RecvErr = []"
| "payload (RecvOk bs) = bs"

subsection \<open>The two control exchanges\<close>

text \<open>
  \<open>send_with_acknowledgement\<close> and \<open>receive_with_acknowledgement\<close> are the same in the
  three programs. The second component of the result is the out-parameter: \<open>None\<close>
  when the function returned before writing it.
\<close>

definition send_with_acknowledgement :: "world \<Rightarrow> fd \<Rightarrow> string \<Rightarrow> int \<times> string option \<times> world" where
  "send_with_acknowledgement w d message =
     (case send w d message of
        (n, w1) \<Rightarrow>
          if n < 0 then (0, None, w1)
          else (case recv w1 d of
                  (r, w2) \<Rightarrow>
                    if nbytes r < 0 then (0, None, w2)
                    else (int (length message), Some (c_str (payload r)), w2)))"

definition receive_with_acknowledgement :: "world \<Rightarrow> fd \<Rightarrow> string \<Rightarrow> int \<times> string option \<times> world" where
  "receive_with_acknowledgement w d ack_message =
     (case recv w d of
        (r, w1) \<Rightarrow>
          if nbytes r < 0 then (0, None, w1)
          else (case send w1 d ack_message of
                  (n, w2) \<Rightarrow>
                    if n < 0 then (0, Some (c_str (payload r)), w2)
                    else (nbytes r, Some (c_str (payload r)), w2)))"

section \<open>The file system\<close>

text \<open>
  The working directory of a process is a tree. A path names a node by its components:
  empty components and \<open>.\<close> are dropped, so \<open>./spdf//a\<close> and \<open>spdf/a\<close> name the same
  node. A component \<open>..\<close> is not resolved: the model covers paths that stay below the
  working directory.
\<close>

definition components :: "string \<Rightarrow> string list" where
  "components p = filter (\<lambda>c. c \<noteq> ''.'') (pieces (CHR ''/'') [] p)"

fun lookup :: "node \<Rightarrow> string list \<Rightarrow> node option" where
  "lookup n [] = Some n"
| "lookup (Dir es) (c # cs) = (case map_of es c of None \<Rightarrow> None | Some ch \<Rightarrow> lookup ch cs)"
| "lookup n (c # cs) = None"

text \<open>\<open>store n cs new\<close> puts \<open>new\<close> at the path \<open>cs\<close>, as a new last entry of its
  directory when the name is free.\<close>

fun store :: "node \<Rightarrow> string list \<Rightarrow> node \<Rightarrow> node" where
  "store n [] new = new"
| "store (Dir es) [c] new =
     Dir (if map_of es c = None then es @ [(c, new)]
          else map (\<lambda>(k, v). if k = c then (k, new) else (k, v)) es)"
| "store (Dir es) (c # cs) new =
     Dir (map (\<lambda>(k, v). if k = c then (k, store v cs new) else (k, v)) es)"
| "store n (c # cs) new = n"

fun erase :: "node \<Rightarrow> string list \<Rightarrow> node" where
  "erase (Dir es) [c] = Dir (filter (\<lambda>(k, v). k \<noteq> c) es)"
| "erase (Dir es) (c # cs) = Dir (map (\<lambda>(k, v). if k = c then (k, erase v cs) else (k, v)) es)"
| "erase n cs = n"

text \<open>\<open>mkdir(path, S_IRWXU)\<close>, with the two outcomes the callers tell apart from success.\<close>

datatype mkdir_result = Created | EEXIST | MkdirFailed

definition mkdir :: "node \<Rightarrow> string \<Rightarrow> mkdir_result \<times> node" where
  "mkdir t path =
     (let cs = components path in
      if path = [] then (MkdirFailed, t)
      else if lookup t cs \<noteq> None then (EEXIST, t)
      else (case lookup t (butlast cs) of
              Some (Dir es) \<Rightarrow> (Created, store t cs (Dir []))
            | _ \<Rightarrow> (MkdirFailed, t)))"

text \<open>
  \<open>fopen(path, "rb")\<close>: the bytes of a regular file, or NULL when the path names
  nothing. A path that names a directory is given NULL as well: this is where the model
  stops, since the C library opens a directory, reports for it a size that depends on
  the file system, and fails at the first read.
\<close>

definition fopen_rb :: "node \<Rightarrow> string \<Rightarrow> string option" where
  "fopen_rb t path = (case lookup t (components path) of Some (Reg bs) \<Rightarrow> Some bs | _ \<Rightarrow> None)"

text \<open>\<open>fopen(path, "wb")\<close>: creates the file or empties it; NULL when the path is a
  directory or its parent is not one.\<close>

definition fopen_wb :: "node \<Rightarrow> string \<Rightarrow> node option" where
  "fopen_wb t path =
     (let cs = components path in
      if cs = [] then None
      else (case lookup t cs of
              Some (Dir es) \<Rightarrow> None
            | Some Other \<Rightarrow> None
            | _ \<Rightarrow> (case lookup t (butlast cs) of
                      Some (Dir es) \<Rightarrow> Some (store t cs (Reg []))
                    | _ \<Rightarrow> None)))"

text \<open>\<open>fwrite\<close> on a file opened with \<open>"wb"\<close>: the bytes go to the end of the file.\<close>

definition fwrite :: "node \<Rightarrow> string \<Rightarrow> string \<Rightarrow> node" where
  "fwrite t path bs =
     (case lookup t (components path) of
        Some (Reg old) \<Rightarrow> store t (components path) (Reg (old @ bs))
      | _ \<Rightarrow> t)"

text \<open>\<open>remove(path)\<close>: 0 when a file or an empty directory was deleted, -1 otherwise.\<close>

definition remove_path :: "node \<Rightarrow> string \<Rightarrow> int \<times> node" where
  "remove_path t path =
     (let cs = components path in
      if cs = [] then (-1, t)
      else (case lookup t cs of
              None \<Rightarrow> (-1, t)
            | Some (Dir (e # es)) \<Rightarrow> (-1, t)
            | _ \<Rightarrow> (0, erase t cs)))"

text \<open>\<open>opendir(path)\<close>: the entries of a directory, or NULL.\<close>

definition opendir :: "node \<Rightarrow> string \<Rightarrow> (string \<times> node) list option" where
  "opendir t path = (case lookup t (components path) of Some (Dir es) \<Rightarrow> Some es | _ \<Rightarrow> None)"

text \<open>\<open>snprintf(buf, 256, ...)\<close> keeps at most 255 characters.\<close>

definition snprintf256 :: "string \<Rightarrow> string" where
  "snprintf256 s = take 255 s"

section \<open>Functions shared by the servers\<close>

text \<open>
  \<open>create_directories\<close>: \<open>mkdir\<close> on the prefix before every \<open>/\<close> but a leading one, then
  on the whole path without its trailing \<open>/\<close>; it stops at the first \<open>mkdir\<close> that fails
  for another reason than \<open>EEXIST\<close>. \<open>slash_prefixes pre s\<close> lists those prefixes,
  \<open>pre\<close> being what was scanned.
\<close>

fun slash_prefixes :: "string \<Rightarrow> string \<Rightarrow> string list" where
  "slash_prefixes pre [] = []"
| "slash_prefixes pre (c # cs) =
     (if c = CHR ''/'' then pre # slash_prefixes (pre @ [c]) cs
      else slash_prefixes (pre @ [c]) cs)"

fun mkdir_all :: "node \<Rightarrow> string list \<Rightarrow> int \<times> node" where
  "mkdir_all t [] = (0, t)"
| "mkdir_all t (p # ps) =
     (case mkdir t p of
        (MkdirFailed, t1) \<Rightarrow> (-1, t1)
      | (r, t1) \<Rightarrow> mkdir_all t1 ps)"

definition create_directories :: "node \<Rightarrow> string \<Rightarrow> int \<times> node" where
  "create_directories t path =
     (let temp0 = snprintf256 path;
          temp = (if temp0 \<noteq> [] \<and> last temp0 = CHR ''/'' then butlast temp0 else temp0)
      in case temp of
           [] \<Rightarrow> mkdir_all t [temp]
         | c # cs \<Rightarrow> mkdir_all t (slash_prefixes [c] cs @ [temp]))"

text \<open>
  \<open>create_tar\<close> runs the external \<open>tar -czf tar_name source_path\<close> and returns 0 when it
  exits with status 0. \<open>tar_util\<close> is that program: the bundle it makes of a directory,
  or \<open>None\<close> when it fails.
\<close>

definition create_tar :: "world \<Rightarrow> string \<Rightarrow> string \<Rightarrow> int \<times> world" where
  "create_tar w tar_name source_path =
     (case tar_util w (fs w) source_path of
        None \<Rightarrow> (-1, w)
      | Some bundle \<Rightarrow>
          (case fopen_wb (fs w) tar_name of
             None \<Rightarrow> (-1, w)
           | Some t1 \<Rightarrow> (0, w\<lparr>fs := fwrite t1 tar_name bundle\<rparr>)))"

text \<open>
  The loop of \<open>send_file\<close> and \<open>send_tar\<close>:
  \<^verbatim>\<open>while ((bytes_read = fread(buffer, 1, BUFFER_SIZE, file)) > 0)
    if (send(socket, buffer, bytes_read, 0) < 0) return -1;\<close>
  The result is \<open>False\<close> when the loop returned.
\<close>

function send_chunks :: "world \<Rightarrow> fd \<Rightarrow> string \<Rightarrow> bool \<times> world" where
  "send_chunks w d content =
     (if content = [] then (True, w)
      else (case send w d (take BUFFER_SIZE content) of
              (n, w1) \<Rightarrow>
                if n < 0 then (False, w1)
                else send_chunks w1 d (drop BUFFER_SIZE content)))"
  by pat_completeness auto
termination
  by (relation "measure (\<lambda>(w, d, content). length content)") auto

declare send_chunks.simps [simp del]

text \<open>\<open>send_file\<close>, the same in \<open>Smain\<close> and \<open>Spdf\<close>.\<close>

definition send_file :: "world \<Rightarrow> fd \<Rightarrow> string \<Rightarrow> int \<times> world" where
  "send_file w d file_path =
     (case fopen_rb (fs w) file_path of
        None \<Rightarrow>
          (case send_with_acknowledgement w d ''-1'' of
             (n, ack, w1) \<Rightarrow> if n \<le> 0 then (-1, w1) else (-1, w1))
      | Some content \<Rightarrow>
          (let file_size = to_int32 (int (length content)) in
           case send_with_acknowledgement w d (show_int file_size) of
             (n, ack, w1) \<Rightarrow>
               if n \<le> 0 then (-1, w1)
               else (case send_chunks w1 d content of
                       (sent, w2) \<Rightarrow>
                         if \<not> sent then (-1, w2)
                         else (case recv w2 d of
                                 (r, w3) \<Rightarrow> if nbytes r < 0 then (-1, w3) else (1, w3)))))"

text \<open>
  A run that does not return: \<open>Hangs\<close> is a loop that never ends, \<open>Undefined\<close> a read of
  an object that was never written.
\<close>

datatype fault = Undefined | Hangs

definition and_then :: "fault + 'a \<Rightarrow> ('a \<Rightarrow> fault + 'b) \<Rightarrow> fault + 'b" where
  "and_then m f = (case m of Inl e \<Rightarrow> Inl e | Inr v \<Rightarrow> f v)"

text \<open>\<open>commands[i]\<close> of the array that \<open>tokenize_command\<close> filled: the entries after the
  last token were never written.\<close>

definition arg :: "string list \<Rightarrow> nat \<Rightarrow> fault + string" where
  "arg commands i = (if i < length commands then Inr (commands ! i) else Inl Undefined)"

text \<open>
  The receiving loop
  \<^verbatim>\<open>while (total_bytes_received < file_size) {
    bytes_received = recv(socket, response, BUFFER_SIZE, 0);
    if (bytes_received < 0) return -1;
    total_bytes_received += bytes_received;
    fwrite(response, 1, bytes_received, file); }\<close>
  Once the peer has closed, every \<open>recv\<close> returns 0 and the loop never ends. The result
  is \<open>False\<close> when the loop returned.
\<close>

definition rx_weight :: "recv_result list \<Rightarrow> nat" where
  "rx_weight rs = sum_list (map (\<lambda>r. Suc (length (payload r))) rs)"

function recv_to_file :: "world \<Rightarrow> fd \<Rightarrow> string \<Rightarrow> int \<Rightarrow> int \<Rightarrow> fault + (bool \<times> world)" where
  "recv_to_file w d file_path file_size total_bytes_received =
     (if total_bytes_received < file_size then
        (if rx (socks w d) = [] then Inl Hangs
         else (case recv w d of
                 (r, w1) \<Rightarrow>
                   if nbytes r < 0 then Inr (False, w1)
                   else recv_to_file (w1\<lparr>fs := fwrite (fs w1) file_path (payload r)\<rparr>) d file_path
                          file_size (total_bytes_received + nbytes r)))
      else Inr (True, w))"
  by pat_completeness auto
termination
  by (relation "measure (\<lambda>(w, d, p, n, k). rx_weight (rx (socks w d)))")
     (auto simp: recv_def set_sock_def rx_weight_def Let_def split: list.splits recv_result.splits if_splits)

declare recv_to_file.simps [simp del]

text \<open>
  \<open>traverse_directory\<close>. \<open>readdir\<close> yields \<open>.\<close> and \<open>..\<close> besides the entries of the
  directory; an entry of type \<open>DT_DIR\<close> is walked in turn, an entry of type \<open>DT_REG\<close>
  adds the line \<open>name - path\<close>, the path relative to \<open>root\<close>. \<open>walk\<close> is the function on
  a directory that \<open>opendir\<close> has opened.
\<close>

definition dot_entries :: "(string \<times> node) list" where
  "dot_entries = [(''.'', Dir []), (''..'', Dir [])]"

definition file_entry :: "string \<Rightarrow> string \<Rightarrow> string" where
  "file_entry root path =
     (let file_path = drop (length root) path;
          file_name = (case strrchr file_path (CHR ''/'') of Some r \<Rightarrow> tl r | None \<Rightarrow> file_path)
      in take 511 (file_name @ '' - '' @ file_path @ [CHR 0x0A]))"

lemma size_entry_less: "(name, ch) \<in> set es \<Longrightarrow> size ch < size (Dir es)"
  by (induction es) auto

function walk :: "string \<Rightarrow> string \<Rightarrow> node \<Rightarrow> string" where
  "walk root dir_path (Dir es) =
     concat (map (\<lambda>(name, ch).
                    if name = ''.'' \<or> name = ''..'' then []
                    else (case ch of
                            Dir sub \<Rightarrow> walk root (snprintf256 (dir_path @ ''/'' @ name)) ch
                          | Reg bs \<Rightarrow> file_entry root (snprintf256 (dir_path @ ''/'' @ name))
                          | Other \<Rightarrow> []))
                 (dot_entries @ es))"
| "walk root dir_path (Reg bs) = []"
| "walk root dir_path Other = []"
  by pat_completeness auto
termination
  by (relation "measure (\<lambda>(root, dir_path, n). size n)")
     (auto simp: dot_entries_def dest: size_entry_less)

definition traverse_directory :: "node \<Rightarrow> string \<Rightarrow> string \<Rightarrow> string \<Rightarrow> string" where
  "traverse_directory t root dir_path file_paths =
     (case opendir t dir_path of
        None \<Rightarrow> file_paths
      | Some es \<Rightarrow> file_paths @ walk root dir_path (Dir es))"

section \<open>The backend \<open>Spdf\<close>\<close>

text \<open>
  \<open>receive_file\<close> of the backend: the directories, then the size handshake (the size
  it reads is only printed; the loop runs on the \<open>file_size\<close> of the command), then the
  file, the loop, and the terminal \<open>ack\<close>.
\<close>

definition spdf_receive_file ::
    "world \<Rightarrow> fd \<Rightarrow> string \<Rightarrow> string \<Rightarrow> int \<Rightarrow> fault + (int \<times> world)" where
  "spdf_receive_file w d dir_path file_name file_size =
     (case create_directories (fs w) dir_path of
        (r, t1) \<Rightarrow>
          if r \<noteq> 0 then Inr (-1, w\<lparr>fs := t1\<rparr>)
          else (case receive_with_acknowledgement (w\<lparr>fs := t1\<rparr>) d ''ack'' of
                  (n, file_size_str, w2) \<Rightarrow>
                    if n \<le> 0 then Inr (-1, w2)
                    else (let file_path = snprintf256 (dir_path @ ''/'' @ file_name) in
                          case fopen_wb (fs w2) file_path of
                            None \<Rightarrow> Inr (-1, w2)
                          | Some t2 \<Rightarrow>
                              and_then (recv_to_file (w2\<lparr>fs := t2\<rparr>) d file_path file_size 0)
                                (\<lambda>(finished, w3).
                                   if \<not> finished then Inr (-1, w3)
                                   else (case send w3 d (c_literal ''ack'' 3) of
                                           (k, w4) \<Rightarrow>
                                             if k < 0 then Inr (-1, w4) else Inr (0, w4))))))"

definition spdf_remove_file :: "world \<Rightarrow> fd \<Rightarrow> string \<Rightarrow> int \<times> world" where
  "spdf_remove_file w d file_path =
     (case remove_path (fs w) file_path of
        (r, t1) \<Rightarrow> if r \<noteq> 0 then (-1, w\<lparr>fs := t1\<rparr>) else (1, w\<lparr>fs := t1\<rparr>))"

text \<open>
  \<open>display_files\<close> of the backend. Its sending loop writes the listing in slices of
  \<open>BUFFER_SIZE\<close> bytes, as the loop of \<open>send_file\<close> does with a file.
\<close>

definition spdf_display_files :: "world \<Rightarrow> fd \<Rightarrow> string \<Rightarrow> int \<times> world" where
  "spdf_display_files w d dir_path =
     (let file_paths = traverse_directory (fs w) dir_path dir_path [];
          msg_size = int (length file_paths)
      in if msg_size = 0 then
           (case send_with_acknowledgement w d ''0'' of (n, ack, w1) \<Rightarrow> (-1, w1))
         else (case send_with_acknowledgement w d (show_int msg_size) of
                 (n, ack, w1) \<Rightarrow>
                   if n \<le> 0 then (-1, w1)
                   else (case send_chunks w1 d file_paths of
                           (sent, w2) \<Rightarrow>
                             if \<not> sent then (-1, w2)
                             else (case recv w2 d of
                                     (r, w3) \<Rightarrow> if nbytes r < 0 then (-1, w3) else (1, w3)))))"

definition spdf_process_ufile :: "world \<Rightarrow> fd \<Rightarrow> string list \<Rightarrow> fault + (int \<times> world)" where
  "spdf_process_ufile w d commands =
     and_then (arg commands 1) (\<lambda>filename.
     and_then (arg commands 2) (\<lambda>size_str.
     and_then (arg commands 3) (\<lambda>dest.
       let file_size = atoi size_str;
           destination_path = snprintf256 (''./spdf/'' @ dest)
       in and_then (spdf_receive_file w d destination_path filename file_size)
            (\<lambda>(r, w1). Inr (1, w1)))))"

definition spdf_process_dfile :: "world \<Rightarrow> fd \<Rightarrow> string list \<Rightarrow> fault + (int \<times> world)" where
  "spdf_process_dfile w d commands =
     and_then (arg commands 1) (\<lambda>file_path.
       Inr (send_file w d (snprintf256 (''./spdf/'' @ file_path))))"

definition spdf_process_rmfile :: "world \<Rightarrow> fd \<Rightarrow> string list \<Rightarrow> fault + (int \<times> world)" where
  "spdf_process_rmfile w d commands =
     and_then (arg commands 1) (\<lambda>file_name.
       Inr (spdf_remove_file w d (snprintf256 (''./spdf/'' @ file_name))))"

definition spdf_process_display :: "world \<Rightarrow> fd \<Rightarrow> string list \<Rightarrow> fault + (int \<times> world)" where
  "spdf_process_display w d commands =
     and_then (arg commands 1) (\<lambda>dir_path.
       Inr (spdf_display_files w d (snprintf256 (''./spdf/'' @ dir_path))))"

definition spdf_process_dtar :: "world \<Rightarrow> fd \<Rightarrow> string list \<Rightarrow> fault + (int \<times> world)" where
  "spdf_process_dtar w d commands =
     (case create_tar w ''./tar/pdf.tar'' ''./spdf'' of
        (r, w1) \<Rightarrow> if r \<noteq> 0 then Inr (-1, w1) else Inr (1, w1))"

text \<open>
  \<open>process_command\<close>: the reply is one \<open>send\<close> of a literal with the length the source
  gives. The array \<open>commands\<close> has five slots, and nothing looks at \<open>count\<close>.
\<close>

definition reply :: "world \<Rightarrow> fd \<Rightarrow> int \<Rightarrow> string \<Rightarrow> string \<Rightarrow> world" where
  "reply w d r on_success on_failure = snd (send w d (if r = 1 then on_success else on_failure))"

definition spdf_process_command :: "world \<Rightarrow> fd \<Rightarrow> string \<Rightarrow> fault + world" where
  "spdf_process_command w d command_str =
     (let commands = tokenize_command command_str in
      if length commands > 5 then Inl Undefined
      else and_then (arg commands 0) (\<lambda>command.
        if command = ''ufile'' then
          and_then (spdf_process_ufile w d commands) (\<lambda>(r, w1).
            Inr (reply w1 d r (c_literal ''File received by server'' 14)
                   (c_literal ''Failed to receive file'' 23)))
        else if command = ''dfile'' then
          and_then (spdf_process_dfile w d commands) (\<lambda>(r, w1).
            Inr (reply w1 d r (c_literal ''File downloaded'' 16)
                   (c_literal ''Failed to download file'' 24)))
        else if command = ''rmfile'' then
          and_then (spdf_process_rmfile w d commands) (\<lambda>(r, w1).
            Inr (reply w1 d r (c_literal ''File removed'' 13)
                   (c_literal ''Failed to remove file'' 22)))
        else if command = ''dtar'' then
          and_then (spdf_process_dtar w d commands) (\<lambda>(r, w1).
            Inr (reply w1 d r (c_literal ''Tar file downloaded'' 19)
                   (c_literal ''Failed to download tar file'' 27)))
        else if command = ''display'' then
          and_then (spdf_process_display w d commands) (\<lambda>(r, w1).
            Inr (reply w1 d r (c_literal ''File paths saved as file'' 24)
                   (c_literal ''Failed to get files'' 19)))
        else Inr (snd (send w d (c_literal ''Invalid command'' 15)))))"

text \<open>
  \<open>prcclient\<close> of the backend: the loop leaves on a negative result and on the result
  0, then closes the socket. The first argument bounds the number of commands served;
  \<open>None\<close> is a run that needs more.
\<close>

fun spdf_prcclient :: "nat \<Rightarrow> world \<Rightarrow> fd \<Rightarrow> (fault + world) option" where
  "spdf_prcclient 0 w d = None"
| "spdf_prcclient (Suc k) w d =
     (case receive_with_acknowledgement w d ''ack'' of
        (bytes_received, command, w1) \<Rightarrow>
          if bytes_received < 0 then Some (Inr (close_fd w1 d))
          else if bytes_received = 0 then Some (Inr (close_fd w1 d))
          else (case command of
                  None \<Rightarrow> Some (Inl Undefined)
                | Some c \<Rightarrow>
                    (case spdf_process_command w1 d c of
                       Inl e \<Rightarrow> Some (Inl e)
                     | Inr w2 \<Rightarrow> spdf_prcclient k w2 d)))"

section \<open>The coordinator \<open>Smain\<close>\<close>

text \<open>\<open>receive_file\<close> of the coordinator: the size is its argument, there is no handshake.\<close>

definition smain_receive_file ::
    "world \<Rightarrow> fd \<Rightarrow> string \<Rightarrow> string \<Rightarrow> int \<Rightarrow> fault + (int \<times> world)" where
  "smain_receive_file w d dir_path file_name file_size =
     (case create_directories (fs w) dir_path of
        (r, t1) \<Rightarrow>
          if r \<noteq> 0 then Inr (-1, w\<lparr>fs := t1\<rparr>)
          else (let file_path = snprintf256 (dir_path @ ''/'' @ file_name) in
                case fopen_wb t1 file_path of
                  None \<Rightarrow> Inr (-1, w\<lparr>fs := t1\<rparr>)
                | Some t2 \<Rightarrow>
                    and_then (recv_to_file (w\<lparr>fs := t2\<rparr>) d file_path file_size 0)
                      (\<lambda>(finished, w3).
                         if \<not> finished then Inr (-1, w3)
                         else (case send w3 d (c_literal ''ack'' 3) of
                                 (k, w4) \<Rightarrow> if k < 0 then Inr (-1, w4) else Inr (0, w4)))))"

definition send_file_to_server ::
    "world \<Rightarrow> fd \<Rightarrow> string \<Rightarrow> int \<Rightarrow> string \<Rightarrow> int \<times> world" where
  "send_file_to_server w socket_to_server file_name file_size destination_path =
     (let command_str = snprintf256 (''ufile '' @ file_name @ '' '' @ show_int file_size
                                       @ '' '' @ destination_path) in
      case send_with_acknowledgement w socket_to_server command_str of
        (n, ack, w1) \<Rightarrow>
          if n \<le> 0 then (-1, w1)
          else (case send_file w1 socket_to_server (snprintf256 (''./smain/'' @ file_name)) of
                  (r, w2) \<Rightarrow>
                    if r \<noteq> 1 then (-1, w2)
                    else (case recv w2 socket_to_server of
                            (resp, w3) \<Rightarrow> if nbytes resp < 0 then (-1, w3) else (1, w3))))"

text \<open>\<open>receive_file_from_server\<close> stores under the whole \<open>file_path\<close>; the file name it
  extracts is not used.\<close>

definition receive_file_from_server :: "world \<Rightarrow> fd \<Rightarrow> string \<Rightarrow> fault + (int \<times> world)" where
  "receive_file_from_server w socket_to_server file_path =
     (case send_with_acknowledgement w socket_to_server (snprintf256 (''dfile '' @ file_path)) of
        (n, ack, w1) \<Rightarrow>
          if n \<le> 0 then Inr (-1, w1)
          else (case receive_with_acknowledgement w1 socket_to_server ''ack'' of
                  (m, file_size_str, w2) \<Rightarrow>
                    if m \<le> 0 then Inr (-1, w2)
                    else and_then (case file_size_str of None \<Rightarrow> Inl Undefined | Some x \<Rightarrow> Inr x)
                      (\<lambda>size_str.
                         let file_size = atoi size_str in
                         if file_size = -1 then Inr (-1, w2)
                         else and_then (smain_receive_file w2 socket_to_server ''./smain/'' file_path file_size)
                           (\<lambda>(r, w3).
                              if r \<noteq> 0 then Inr (-1, w3)
                              else (case recv w3 socket_to_server of
                                      (resp, w4) \<Rightarrow>
                                        if nbytes resp < 0 then Inr (-1, w4) else Inr (1, w4))))))"

definition smain_remove_file :: "world \<Rightarrow> fd \<Rightarrow> string \<Rightarrow> int \<times> world" where
  "smain_remove_file w d file_path =
     (case remove_path (fs w) file_path of
        (r, t1) \<Rightarrow>
          if r \<noteq> 0 then (-1, w\<lparr>fs := t1\<rparr>)
          else (case send (w\<lparr>fs := t1\<rparr>) d (c_literal ''ack'' 3) of
                  (k, w1) \<Rightarrow> if k < 0 then (-1, w1) else (1, w1)))"

text \<open>\<open>remove_file_from_server\<close> compares the reply, as the C string the buffer holds,
  with \<open>File removed\<close>.\<close>

definition remove_file_from_server :: "world \<Rightarrow> fd \<Rightarrow> string \<Rightarrow> int \<times> world" where
  "remove_file_from_server w socket_to_server file_name =
     (case send_with_acknowledgement w socket_to_server (snprintf256 (''rmfile '' @ file_name)) of
        (n, ack, w1) \<Rightarrow>
          if n \<le> 0 then (-1, w1)
          else (case recv w1 socket_to_server of
                  (resp, w2) \<Rightarrow>
                    if nbytes resp < 0 then (-1, w2)
                    else if c_str (payload resp) \<noteq> ''File removed'' then (-1, w2)
                    else (1, w2)))"

text \<open>
  The receiving loop of \<open>display_files_from_server\<close> appends what it reads to the
  listing with \<open>strncat\<close>, which stops at a terminator.
\<close>

function recv_to_buf :: "world \<Rightarrow> fd \<Rightarrow> string \<Rightarrow> int \<Rightarrow> int \<Rightarrow> fault + (bool \<times> string \<times> world)" where
  "recv_to_buf w d buf file_size total_bytes_received =
     (if total_bytes_received < file_size then
        (if rx (socks w d) = [] then Inl Hangs
         else (case recv w d of
                 (r, w1) \<Rightarrow>
                   if nbytes r < 0 then Inr (False, buf, w1)
                   else recv_to_buf w1 d (buf @ c_str (payload r))
                          file_size (total_bytes_received + nbytes r)))
      else Inr (True, buf, w))"
  by pat_completeness auto
termination
  by (relation "measure (\<lambda>(w, d, b, n, k). rx_weight (rx (socks w d)))")
     (auto simp: recv_def set_sock_def rx_weight_def Let_def split: list.splits recv_result.splits if_splits)

declare recv_to_buf.simps [simp del]

text \<open>The second component of the result of \<open>display_files_from_server\<close> is the listing
  buffer it was given, with what it appended.\<close>

definition display_files_from_server ::
    "world \<Rightarrow> fd \<Rightarrow> string \<Rightarrow> string \<Rightarrow> fault + (int \<times> string \<times> world)" where
  "display_files_from_server w socket_to_server dir_path txt_file_paths =
     (case send_with_acknowledgement w socket_to_server (snprintf256 (''display '' @ dir_path)) of
        (n, ack, w1) \<Rightarrow>
          if n \<le> 0 then Inr (-1, txt_file_paths, w1)
          else (case receive_with_acknowledgement w1 socket_to_server ''ack'' of
                  (m, file_size_str, w2) \<Rightarrow>
                    if m \<le> 0 then Inr (-1, txt_file_paths, w2)
                    else and_then (case file_size_str of None \<Rightarrow> Inl Undefined | Some x \<Rightarrow> Inr x)
                      (\<lambda>size_str.
                         and_then (recv_to_buf w2 socket_to_server txt_file_paths (atoi size_str) 0)
                           (\<lambda>(finished, buf, w3).
                              if \<not> finished then Inr (-1, buf, w3)
                              else (case send w3 socket_to_server (c_literal ''ack'' 3) of
                                      (k, w4) \<Rightarrow>
                                        if k < 0 then Inr (-1, buf, w4)
                                        else (case recv w4 socket_to_server of
                                                (resp, w5) \<Rightarrow>
                                                  if nbytes resp < 0 then Inr (-1, buf, w5)
                                                  else Inr (1, buf, w5)))))))"

text \<open>\<open>display_files\<close> of the coordinator: its own listing, then the pdf backend's, then
  the text backend's; the results of the two calls are not looked at.\<close>

definition smain_display_files :: "world \<Rightarrow> fd \<Rightarrow> string \<Rightarrow> fault + (int \<times> world)" where
  "smain_display_files w d dir_path =
     (let dir_path_full = snprintf256 (''./smain/'' @ dir_path);
          local_paths = traverse_directory (fs w) dir_path_full dir_path_full []
      in and_then (display_files_from_server w Spdf dir_path [])
           (\<lambda>(r1, pdf_file_paths, wa).
      and_then (display_files_from_server wa Stext dir_path [])
           (\<lambda>(r2, txt_file_paths, wb).
        let file_paths = local_paths @ pdf_file_paths @ txt_file_paths;
            msg_size = int (length file_paths)
        in if msg_size = 0 then
             (case send_with_acknowledgement wb d ''0'' of (n, ack, w1) \<Rightarrow> Inr (-1, w1))
           else (case send_with_acknowledgement wb d (show_int msg_size) of
                   (n, ack, w1) \<Rightarrow>
                     if n \<le> 0 then Inr (-1, w1)
                     else (case send_chunks w1 d file_paths of
                             (sent, w2) \<Rightarrow>
                               if \<not> sent then Inr (-1, w2)
                               else (case recv w2 d of
                                       (r, w3) \<Rightarrow>
                                         if nbytes r < 0 then Inr (-1, w3) else Inr (1, w3)))))))"

definition smain_send_tar :: "world \<Rightarrow> fd \<Rightarrow> string \<Rightarrow> int \<times> world" where
  "smain_send_tar w d tar_name =
     (case fopen_rb (fs w) tar_name of
        None \<Rightarrow>
          (case send_with_acknowledgement w d ''-1'' of
             (n, ack, w1) \<Rightarrow> if n \<le> 0 then (-1, w1) else (-1, w1))
      | Some content \<Rightarrow>
          (let file_size = to_int32 (int (length content)) in
           case send_with_acknowledgement w d (show_int file_size) of
             (n, ack, w1) \<Rightarrow>
               if n \<le> 0 then (-1, w1)
               else (case send_chunks w1 d content of
                       (sent, w2) \<Rightarrow>
                         if \<not> sent then (-1, w2)
                         else (case recv w2 d of
                                 (r, w3) \<Rightarrow> if nbytes r < 0 then (-1, w3) else (1, w3)))))"

text \<open>
  The handlers. Each of \<open>process_ufile\<close>, \<open>process_dfile\<close> and \<open>process_rmfile\<close> takes the
  extension with \<open>strrchr(name, '.')\<close>, returns -1 when there is none, and picks the
  backend socket with
  \<^verbatim>\<open>(strcmp(file_extension, ".txt") == 0) ? stext_server_socket : spdf_server_socket\<close>
  when the extension is \<open>.txt\<close> or \<open>.pdf\<close>.
\<close>

definition backend_socket :: "string \<Rightarrow> fd" where
  "backend_socket file_extension = (if file_extension = ''.txt'' then Stext else Spdf)"

definition smain_process_ufile :: "world \<Rightarrow> fd \<Rightarrow> string list \<Rightarrow> fault + (int \<times> world)" where
  "smain_process_ufile w d commands =
     and_then (arg commands 1) (\<lambda>filename.
     and_then (arg commands 2) (\<lambda>size_str.
       let file_size = atoi size_str in
       case strrchr filename (CHR ''.'') of
         None \<Rightarrow> Inr (-1, w)
       | Some file_extension \<Rightarrow>
           and_then (if file_extension = ''.c''
                     then and_then (arg commands 3) (\<lambda>dest. Inr (snprintf256 (''./smain/'' @ dest)))
                     else Inr ''./smain/'')
             (\<lambda>destination_path.
           and_then (smain_receive_file w d destination_path filename file_size)
             (\<lambda>(r, w1).
                if file_extension = ''.txt'' \<or> file_extension = ''.pdf'' then
                  and_then (arg commands 3) (\<lambda>dest.
                    case send_file_to_server w1 (backend_socket file_extension) filename file_size dest of
                      (r2, w2) \<Rightarrow>
                        (case remove_path (fs w2) (snprintf256 (destination_path @ ''/'' @ filename)) of
                           (r3, t3) \<Rightarrow>
                             if r3 \<noteq> 0 then Inr (-1, w2\<lparr>fs := t3\<rparr>)
                             else Inr (1, w2\<lparr>fs := t3\<rparr>)))
                else Inr (1, w1)))))"

definition smain_process_dfile :: "world \<Rightarrow> fd \<Rightarrow> string list \<Rightarrow> fault + (int \<times> world)" where
  "smain_process_dfile w d commands =
     and_then (arg commands 1) (\<lambda>file_path.
       case strrchr file_path (CHR ''.'') of
         None \<Rightarrow> Inr (-1, w)
       | Some file_extension \<Rightarrow>
           and_then (if file_extension = ''.txt'' \<or> file_extension = ''.pdf'' then
                       and_then (receive_file_from_server w (backend_socket file_extension) file_path)
                         (\<lambda>(r, w1). Inr (r = 1, w1))
                     else Inr (False, w))
             (\<lambda>(file_fetch, w1).
                let file_full_path = snprintf256 (''./smain/'' @ file_path) in
                case send_file w1 d file_full_path of
                  (result, w2) \<Rightarrow>
                    if file_fetch then
                      (case remove_path (fs w2) file_full_path of
                         (r3, t3) \<Rightarrow>
                           if r3 \<noteq> 0 then Inr (-1, w2\<lparr>fs := t3\<rparr>)
                           else Inr (result, w2\<lparr>fs := t3\<rparr>))
                    else Inr (result, w2)))"

definition smain_process_rmfile :: "world \<Rightarrow> fd \<Rightarrow> string list \<Rightarrow> fault + (int \<times> world)" where
  "smain_process_rmfile w d commands =
     and_then (arg commands 1) (\<lambda>file_name.
       case strrchr file_name (CHR ''.'') of
         None \<Rightarrow> Inr (-1, w)
       | Some file_extension \<Rightarrow>
           if file_extension = ''.txt'' \<or> file_extension = ''.pdf'' then
             (case remove_file_from_server w (backend_socket file_extension) file_name of
                (res, w1) \<Rightarrow>
                  (case send w1 d (c_literal ''ack'' 3) of
                     (k, w2) \<Rightarrow> if k < 0 then Inr (-1, w2) else Inr (res, w2)))
           else Inr (smain_remove_file w d (snprintf256 (''./smain/'' @ file_name))))"

definition smain_process_display :: "world \<Rightarrow> fd \<Rightarrow> string list \<Rightarrow> fault + (int \<times> world)" where
  "smain_process_display w d commands =
     and_then (arg commands 1) (\<lambda>dir_path. smain_display_files w d dir_path)"

text \<open>\<open>process_dtar\<close>. The pause \<open>sleep(1)\<close> has no effect on the state of the model.\<close>

definition smain_process_dtar :: "world \<Rightarrow> fd \<Rightarrow> string list \<Rightarrow> fault + (int \<times> world)" where
  "smain_process_dtar w d commands =
     and_then (arg commands 1) (\<lambda>file_type.
       let tar_path = snprintf256 (''./tar/'' @ file_type @ ''.tar'') in
       if file_type = ''txt'' \<or> file_type = ''pdf'' then
         (let socket_to_server = (if file_type = ''txt'' then Stext else Spdf) in
          case send_with_acknowledgement w socket_to_server ''dtar'' of
            (n, ack, w1) \<Rightarrow>
              if n \<le> 0 then Inr (-1, w1)
              else (case recv w1 socket_to_server of
                      (resp, w2) \<Rightarrow>
                        if nbytes resp < 0 then Inr (-1, w2)
                        else Inr (smain_send_tar w2 d tar_path)))
       else if file_type = ''c'' then
         (case create_tar w (snprintf256 (''./tar/'' @ file_type @ ''.tar'')) ''./smain'' of
            (r, w1) \<Rightarrow> if r \<noteq> 0 then Inr (-1, w1) else Inr (smain_send_tar w1 d tar_path))
       else Inr (smain_send_tar w d tar_path))"

definition smain_process_command :: "world \<Rightarrow> fd \<Rightarrow> string \<Rightarrow> fault + world" where
  "smain_process_command w d command_str =
     (let commands = tokenize_command command_str in
      if length commands > 5 then Inl Undefined
      else and_then (arg commands 0) (\<lambda>command.
        if command = ''ufile'' then
          and_then (smain_process_ufile w d commands) (\<lambda>(r, w1).
            Inr (reply w1 d r (c_literal ''File received by server'' 24)
                   (c_literal ''Failed to receive file'' 23)))
        else if command = ''dfile'' then
          and_then (smain_process_dfile w d commands) (\<lambda>(r, w1).
            Inr (reply w1 d r (c_literal ''File downloaded'' 16)
                   (c_literal ''Failed to download file'' 24)))
        else if command = ''rmfile'' then
          and_then (smain_process_rmfile w d commands) (\<lambda>(r, w1).
            Inr (reply w1 d r (c_literal ''File removed'' 13)
                   (c_literal ''Failed to remove file'' 22)))
        else if command = ''dtar'' then
          and_then (smain_process_dtar w d commands) (\<lambda>(r, w1).
            Inr (reply w1 d r (c_literal ''Tar file downloaded'' 19)
                   (c_literal ''Failed to download tar file'' 27)))
        else if command = ''display'' then
          and_then (smain_process_display w d commands) (\<lambda>(r, w1).
            Inr (reply w1 d r (c_literal ''File paths saved as file'' 24)
                   (c_literal ''Failed to get files'' 19)))
        else Inr (snd (send w d (c_literal ''Invalid command'' 15)))))"

text \<open>
  \<open>prcclient\<close> of the coordinator: the loop leaves only on a negative result. The first
  argument bounds the number of commands served; \<open>None\<close> is a run that needs more.
\<close>

fun smain_prcclient :: "nat \<Rightarrow> world \<Rightarrow> fd \<Rightarrow> (fault + world) option" where
  "smain_prcclient 0 w d = None"
| "smain_prcclient (Suc k) w d =
     (case receive_with_acknowledgement w d ''ack'' of
        (bytes_received, command, w1) \<Rightarrow>
          if bytes_received < 0 then Some (Inr (close_fd w1 d))
          else (case command of
                  None \<Rightarrow> Some (Inl Undefined)
                | Some c \<Rightarrow>
                    (case smain_process_command w1 d c of
                       Inl e \<Rightarrow> Some (Inl e)
                     | Inr w2 \<Rightarrow> smain_prcclient k w2 d)))"

section \<open>The client\<close>

text \<open>
  The client holds the one descriptor \<open>Smain\<close>. Its \<open>file_size\<close> is a \<open>size_t\<close>, so the
  comparison \<open>file_size == -1\<close> is made after both sides were converted to \<open>size_t\<close>.
  The test \<open>receive_with_acknowledgement(...) == NULL\<close> is a test for the result 0.
\<close>

definition file_name_of :: "string \<Rightarrow> string" where
  "file_name_of file_path =
     (case strrchr file_path (CHR ''/'') of None \<Rightarrow> file_path | Some r \<Rightarrow> tl r)"

definition client_download_file :: "world \<Rightarrow> fd \<Rightarrow> string \<Rightarrow> fault + (int \<times> world)" where
  "client_download_file w d file_path =
     (case receive_with_acknowledgement w d ''ack'' of
        (n, response, w1) \<Rightarrow>
          if n = 0 then Inr (-1, w1)
          else and_then (case response of None \<Rightarrow> Inl Undefined | Some x \<Rightarrow> Inr x)
            (\<lambda>size_str.
               let file_size = to_size_t (atoi size_str) in
               if file_size = to_size_t (-1) then Inr (-1, w1)
               else (let file_name = file_name_of file_path in
                     case fopen_wb (fs w1) file_name of
                       None \<Rightarrow> Inr (-1, w1)
                     | Some t2 \<Rightarrow>
                         and_then (recv_to_file (w1\<lparr>fs := t2\<rparr>) d file_name file_size 0)
                           (\<lambda>(finished, w3).
                              if \<not> finished then Inr (-1, w3)
                              else (case send w3 d (c_literal ''ack'' 3) of
                                      (k, w4) \<Rightarrow> if k < 0 then Inr (-1, w4) else Inr (0, w4))))))"

definition client_display_files :: "world \<Rightarrow> fd \<Rightarrow> string \<Rightarrow> fault + (int \<times> world)" where
  "client_display_files w d file_path =
     (case send_with_acknowledgement w d (''display '' @ file_path) of
        (n0, ack, w0) \<Rightarrow>
          if n0 \<le> 0 then Inr (-1, w0)
          else (case receive_with_acknowledgement w0 d ''ack'' of
                  (n, response, w1) \<Rightarrow>
                    if n = 0 then Inr (-1, w1)
                    else and_then (case response of None \<Rightarrow> Inl Undefined | Some x \<Rightarrow> Inr x)
                      (\<lambda>size_str.
                         let file_size = to_size_t (atoi size_str) in
                         if file_size = 0 then Inr (-1, w1)
                         else (case fopen_wb (fs w1) ''display.txt'' of
                                 None \<Rightarrow> Inr (-1, w1)
                               | Some t2 \<Rightarrow>
                                   and_then (recv_to_file (w1\<lparr>fs := t2\<rparr>) d ''display.txt'' file_size 0)
                                     (\<lambda>(finished, w3).
                                        if \<not> finished then Inr (-1, w3)
                                        else (case send w3 d (c_literal ''ack'' 3) of
                                                (k, w4) \<Rightarrow>
                                                  if k < 0 then Inr (-1, w4) else Inr (0, w4)))))))"

text \<open>\<open>send_file\<close> of the client announces the size inside the \<open>ufile\<close> command.\<close>

definition client_send_file :: "world \<Rightarrow> fd \<Rightarrow> string \<Rightarrow> string \<Rightarrow> int \<times> world" where
  "client_send_file w d file_path destination_path =
     (case fopen_rb (fs w) file_path of
        None \<Rightarrow> (-1, w)
      | Some content \<Rightarrow>
          (let message = ''ufile '' @ file_name_of file_path @ '' '' @ show_int (int (length content))
                           @ '' '' @ destination_path in
           case send_with_acknowledgement w d message of
             (n, ack, w1) \<Rightarrow>
               if n \<le> 0 then (-1, w1)
               else (case send_chunks w1 d content of
                       (sent, w2) \<Rightarrow>
                         if \<not> sent then (-1, w2)
                         else (case recv w2 d of
                                 (r, w3) \<Rightarrow> if nbytes r < 0 then (-1, w3) else (1, w3)))))"

definition client_remove_file :: "world \<Rightarrow> fd \<Rightarrow> string \<Rightarrow> int \<times> world" where
  "client_remove_file w d file_path =
     (case send_with_acknowledgement w d (''rmfile '' @ file_path) of
        (n, ack, w1) \<Rightarrow>
          if n \<le> 0 then (-1, w1)
          else (case recv w1 d of
                  (r, w2) \<Rightarrow> if nbytes r < 0 then (-1, w2) else (1, w2)))"

section \<open>Worlds to run the programs in\<close>

text \<open>A socket on which nothing was scripted: the peer has closed and every write succeeds.\<close>

definition hung_up :: sock where
  "hung_up = \<lparr>rx = [], tx_ok = [], tx = [], is_open = True\<rparr>"

text \<open>A socket on which the peer will deliver the given frames, one per \<open>recv\<close>.\<close>

definition peer_sends :: "string list \<Rightarrow> sock" where
  "peer_sends frames = \<lparr>rx = map RecvOk frames, tx_ok = [], tx = [], is_open = True\<rparr>"

text \<open>A process with the working directory \<open>t\<close>, its sockets closed, and a \<open>tar\<close> that fails.\<close>

definition world_of :: "node \<Rightarrow> world" where
  "world_of t = \<lparr>fs = t, socks = (\<lambda>d. hung_up), tar_util = (\<lambda>t p. None)\<rparr>"

text \<open>The same process with the descriptor \<open>d\<close> connected to a peer that delivers
  \<open>frames\<close>, then closes.\<close>

definition connected :: "node \<Rightarrow> fd \<Rightarrow> string list \<Rightarrow> world" where
  "connected t d frames = set_sock (world_of t) d (peer_sends frames)"

text \<open>The coordinator with its client and its two backends, each delivering the given
  frames.\<close>

definition coordinator :: "node \<Rightarrow> string list \<Rightarrow> string list \<Rightarrow> string list \<Rightarrow> world" where
  "coordinator t client_frames spdf_frames stext_frames =
     set_sock (set_sock (connected t Client client_frames) Spdf (peer_sends spdf_frames))
       Stext (peer_sends stext_frames)"

text \<open>What a run shows of the descriptor \<open>d\<close>: the frames written to it, the part of the
  script still unread, and the file system.\<close>

definition observe :: "fd \<Rightarrow> fault + world \<Rightarrow> fault + (string list \<times> recv_result list \<times> node)" where
  "observe d res =
     (case res of Inl e \<Rightarrow> Inl e | Inr w \<Rightarrow> Inr (tx (socks w d), rx (socks w d), fs w))"

text \<open>The same process with a \<open>tar\<close> that succeeds and writes the given bytes.\<close>

definition with_tar :: "world \<Rightarrow> string \<Rightarrow> world" where
  "with_tar w bundle = w\<lparr>tar_util := (\<lambda>t p. Some bundle)\<rparr>"

section \<open>Notions the properties are stated with\<close>

text \<open>The frames that the sending loop writes for a content.\<close>

function slices :: "string \<Rightarrow> string list" where
  "slices content = (if content = [] then [] else take BUFFER_SIZE content # slices (drop BUFFER_SIZE content))"
  by pat_completeness auto
termination
  by (relation "measure length") auto

declare slices.simps [simp del]

text \<open>
  The number of arguments of each command on the wire: \<open>ufile name size path\<close>,
  \<open>dfile path\<close>, \<open>rmfile name\<close>, \<open>display path\<close>, \<open>dtar type\<close>. The handlers read
  \<open>commands[1]\<close> to \<open>commands[3]\<close> for \<open>ufile\<close> and \<open>commands[1]\<close> for the others.
\<close>

definition arity :: "string \<Rightarrow> nat option" where
  "arity command =
     (if command = ''ufile'' then Some 3
      else if command \<in> set [''dfile'', ''rmfile'', ''display'', ''dtar''] then Some 1
      else None)"

text \<open>
  \<open>acts_on d w w'\<close>: between \<open>w\<close> and \<open>w'\<close> the process used no other socket than \<open>d\<close>,
  and what it wrote to \<open>d\<close> came after what was written before.
\<close>

definition acts_on :: "fd \<Rightarrow> world \<Rightarrow> world \<Rightarrow> bool" where
  "acts_on d w w' \<longleftrightarrow>
     (\<forall>x. x \<noteq> d \<longrightarrow> socks w' x = socks w x) \<and> prefix (tx (socks w d)) (tx (socks w' d))"




section \<open>Properties\<close>

subsection \<open>Auxiliary facts\<close>

text \<open>The receiving loops end at once when the declared size is already reached.\<close>

lemma recv_to_buf_done: "\<not> k < n \<Longrightarrow> recv_to_buf w d buf n k = Inr (True, buf, w)"
  by (subst recv_to_buf.simps) simp

lemma recv_to_file_done: "\<not> k < n \<Longrightarrow> recv_to_file w d p n k = Inr (True, w)"
  by (subst recv_to_file.simps) simp

lemma atoi_minus_1: "atoi ''-1'' = - 1"
  by (simp add: atoi_def strtol_def to_int32_def is_space_def is_digit_def digit_val_def)

lemma atoi_0: "atoi ''0'' = 0"
  by (simp add: atoi_def strtol_def to_int32_def is_space_def is_digit_def digit_val_def)

text \<open>The socket functions do not look at the file system.\<close>

lemma send_fs: "send (w\<lparr>fs := t\<rparr>) d m = (fst (send w d m), (snd (send w d m))\<lparr>fs := t\<rparr>)"
  by (simp add: send_def set_sock_def Let_def split: list.splits)

lemma recv_fs: "recv (w\<lparr>fs := t\<rparr>) d = (fst (recv w d), (snd (recv w d))\<lparr>fs := t\<rparr>)"
  by (simp add: recv_def set_sock_def Let_def split: list.splits recv_result.splits)

lemma send_with_acknowledgement_fs:
  "send_with_acknowledgement (w\<lparr>fs := t\<rparr>) d m =
     (case send_with_acknowledgement w d m of (n, a, w1) \<Rightarrow> (n, a, w1\<lparr>fs := t\<rparr>))"
  by (simp add: send_with_acknowledgement_def send_fs recv_fs split: prod.splits)

lemma receive_with_acknowledgement_fs:
  "receive_with_acknowledgement (w\<lparr>fs := t\<rparr>) d m =
     (case receive_with_acknowledgement w d m of (n, a, w1) \<Rightarrow> (n, a, w1\<lparr>fs := t\<rparr>))"
  by (simp add: receive_with_acknowledgement_def send_fs recv_fs split: prod.splits)

lemma recv_to_buf_fs:
  "recv_to_buf (w\<lparr>fs := t\<rparr>) d buf n k =
     map_sum id (\<lambda>(b, x, w1). (b, x, w1\<lparr>fs := t\<rparr>)) (recv_to_buf w d buf n k)"
proof (induction w d buf n k rule: recv_to_buf.induct)
  case (1 w d buf file_size total)
  show ?case
  proof (cases "total < file_size \<and> rx (socks w d) \<noteq> []")
    case False
    then show ?thesis
      by (subst recv_to_buf.simps, subst (2) recv_to_buf.simps) auto
  next
    case True
    obtain r w1 where r: "recv w d = (r, w1)" by (cases "recv w d")
    show ?thesis
    proof (cases "nbytes r < 0")
      case True
      with \<open>total < file_size \<and> rx (socks w d) \<noteq> []\<close> r show ?thesis
        by (subst recv_to_buf.simps, subst (2) recv_to_buf.simps) (simp add: recv_fs)
    next
      case False
      with \<open>total < file_size \<and> rx (socks w d) \<noteq> []\<close> r "1.IH"[of r w1] show ?thesis
        by (subst recv_to_buf.simps, subst (2) recv_to_buf.simps) (simp add: recv_fs id_def)
    qed
  qed
qed

lemma send_chunks_fs:
  "send_chunks (w\<lparr>fs := t\<rparr>) d content =
     (fst (send_chunks w d content), (snd (send_chunks w d content))\<lparr>fs := t\<rparr>)"
proof (induction w d content rule: send_chunks.induct)
  case (1 w d content)
  show ?case
  proof (cases "content = []")
    case True
    then show ?thesis by (simp add: send_chunks.simps)
  next
    case False
    obtain n w1 where s: "send w d (take BUFFER_SIZE content) = (n, w1)"
      by (cases "send w d (take BUFFER_SIZE content)")
    with False "1.IH"[of n w1] show ?thesis
      by (subst send_chunks.simps, subst (2) send_chunks.simps, subst (3) send_chunks.simps)
         (simp add: send_fs)
  qed
qed

lemma display_files_from_server_fs:
  "display_files_from_server (w\<lparr>fs := t\<rparr>) s dir buf =
     map_sum id (\<lambda>(r, b, w1). (r, b, w1\<lparr>fs := t\<rparr>)) (display_files_from_server w s dir buf)"
  by (auto simp: display_files_from_server_def send_with_acknowledgement_fs receive_with_acknowledgement_fs
       recv_to_buf_fs send_fs recv_fs and_then_def split: prod.splits option.splits sum.splits)

lemma smain_display_files_fs:
  assumes same: "traverse_directory t1 (snprintf256 (''./smain/'' @ dir)) (snprintf256 (''./smain/'' @ dir)) []
     = traverse_directory t2 (snprintf256 (''./smain/'' @ dir)) (snprintf256 (''./smain/'' @ dir)) []"
  shows "map_sum id (\<lambda>(r, w'). (r, socks w')) (smain_display_files (m\<lparr>fs := t1\<rparr>) d dir)
     = map_sum id (\<lambda>(r, w'). (r, socks w')) (smain_display_files (m\<lparr>fs := t2\<rparr>) d dir)"
proof (cases "display_files_from_server m Spdf dir []")
  case (Inl e)
  then show ?thesis
    by (simp add: smain_display_files_def display_files_from_server_fs and_then_def Let_def)
next
  case (Inr x)
  obtain r1 b1 ma where x: "x = (r1, b1, ma)" by (cases x)
  show ?thesis
  proof (cases "display_files_from_server ma Stext dir []")
    case (Inl e)
    with Inr x show ?thesis
      by (simp add: smain_display_files_def display_files_from_server_fs and_then_def Let_def)
  next
    case (Inr y)
    obtain r2 b2 mb where y: "y = (r2, b2, mb)" by (cases y)
    obtain n a w1 where ex: "send_with_acknowledgement mb d (show_int (int (length
        (traverse_directory t2 (snprintf256 (''./smain/'' @ dir)) (snprintf256 (''./smain/'' @ dir)) [] @ b1 @ b2))))
        = (n, a, w1)"
      by (metis prod_cases3)
    obtain n0 a0 w0 where ex0: "send_with_acknowledgement mb d ''0'' = (n0, a0, w0)"
      by (metis prod_cases3)
    obtain sent w2 where ch: "send_chunks w1 d
        (traverse_directory t2 (snprintf256 (''./smain/'' @ dir)) (snprintf256 (''./smain/'' @ dir)) [] @ b1 @ b2)
        = (sent, w2)"
      by (cases "send_chunks w1 d
        (traverse_directory t2 (snprintf256 (''./smain/'' @ dir)) (snprintf256 (''./smain/'' @ dir)) [] @ b1 @ b2)")
    obtain r w3 where rc: "recv w2 d = (r, w3)" by (cases "recv w2 d")
    from \<open>display_files_from_server m Spdf dir [] = Inr x\<close> x Inr y same ex ex0 ch rc show ?thesis
      by (simp add: smain_display_files_def display_files_from_server_fs and_then_def Let_def
          send_with_acknowledgement_fs send_chunks_fs recv_fs)
  qed
qed


text \<open>Reading back what was stored.\<close>

lemma map_of_replace:
  "map_of es c = Some v \<Longrightarrow>
   map_of (map (\<lambda>(k, v). if k = c then (k, f v) else (k, v)) es) c = Some (f v)"
  by (induction es) (auto split: if_splits)

lemma lookup_store:
  "cs \<noteq> [] \<Longrightarrow> lookup t (butlast cs) = Some (Dir es) \<Longrightarrow> lookup (store t cs n) cs = Some n"
proof (induction cs arbitrary: t es)
  case Nil
  then show ?case by simp
next
  case (Cons c cs)
  show ?case
  proof (cases cs)
    case Nil
    with Cons.prems have t: "t = Dir es" by simp
    show ?thesis
    proof (cases "map_of es c")
      case None
      with t Nil show ?thesis by (simp add: map_add_def)
    next
      case (Some v)
      with t Nil map_of_replace[of es c v "\<lambda>_. n"] show ?thesis by simp
    qed
  next
    case (Cons c2 rest)
    with Cons.prems obtain es0 ch where t: "t = Dir es0" and ch: "map_of es0 c = Some ch"
      and sub: "lookup ch (butlast cs) = Some (Dir es)"
      by (cases t) (auto split: option.splits)
    from Cons.IH[of ch es] Cons sub have "lookup (store ch cs n) cs = Some n" by simp
    with t ch Cons map_of_replace[of es0 c ch "\<lambda>v. store v (c2 # rest) n"] show ?thesis by simp
  qed
qed

lemma lookup_parent:
  "cs \<noteq> [] \<Longrightarrow> lookup t cs = Some n \<Longrightarrow> \<exists>es. lookup t (butlast cs) = Some (Dir es)"
proof (induction cs arbitrary: t)
  case Nil
  then show ?case by simp
next
  case (Cons c cs)
  then show ?case
    by (cases t; cases cs) (auto split: option.splits)
qed

lemma fopen_rb_fopen_wb: "fopen_wb t p = Some t2 \<Longrightarrow> fopen_rb t2 p = Some []"
  by (auto simp: fopen_wb_def fopen_rb_def Let_def lookup_store split: if_splits option.splits node.splits)

lemma fopen_rb_fwrite: "fopen_rb t p = Some old \<Longrightarrow> fopen_rb (fwrite t p bs) p = Some (old @ bs)"
proof -
  assume a: "fopen_rb t p = Some old"
  then have l: "lookup t (components p) = Some (Reg old)"
    by (auto simp: fopen_rb_def split: option.splits node.splits)
  show ?thesis
  proof (cases "components p = []")
    case True
    with l show ?thesis by (simp add: fwrite_def fopen_rb_def)
  next
    case False
    with l lookup_parent[of "components p" t "Reg old"] obtain es where
      "lookup t (butlast (components p)) = Some (Dir es)" by blast
    with False l lookup_store[of "components p" t es "Reg (old @ bs)"] show ?thesis
      by (simp add: fwrite_def fopen_rb_def)
  qed
qed


text \<open>The sending loop writes the slices of the content when no \<open>send\<close> fails; the
  receiving loop stores every segment of a script that delivers exactly the declared
  size.\<close>

lemma concat_slices: "concat (slices content) = content"
proof (induction content rule: slices.induct)
  case (1 content)
  then show ?case by (subst slices.simps) auto
qed

lemma send_chunks_all_sent:
  "tx_ok (socks w d) = [] \<Longrightarrow>
   send_chunks w d content = (True, set_sock w d ((socks w d)\<lparr>tx := tx (socks w d) @ slices content\<rparr>))"
proof (induction w d content rule: send_chunks.induct)
  case (1 w d content)
  show ?case
  proof (cases "content = []")
    case True
    then show ?thesis
      by (subst send_chunks.simps, subst slices.simps) (simp add: set_sock_def)
  next
    case False
    let ?w1 = "set_sock w d ((socks w d)\<lparr>tx := tx (socks w d) @ [take BUFFER_SIZE content]\<rparr>)"
    from "1.prems" have s: "send w d (take BUFFER_SIZE content) = (int (length (take BUFFER_SIZE content)), ?w1)"
      by (simp add: send_def Let_def)
    from "1.prems" have "tx_ok (socks ?w1 d) = []" by (simp add: set_sock_def)
    with "1.IH"[OF False s[symmetric]] have
      "send_chunks ?w1 d (drop BUFFER_SIZE content) =
         (True, set_sock ?w1 d ((socks ?w1 d)\<lparr>tx := tx (socks ?w1 d) @ slices (drop BUFFER_SIZE content)\<rparr>))"
      by simp
    with False s show ?thesis
      by (subst send_chunks.simps, subst slices.simps) (simp add: set_sock_def)
  qed
qed


lemma fopen_rb_fwrite_all:
  "fopen_rb t path = Some old \<Longrightarrow>
   fopen_rb (foldl (\<lambda>t seg. fwrite t path seg) t segs) path = Some (old @ concat segs)"
  by (induction segs arbitrary: t old) (simp_all add: fopen_rb_fwrite)

lemma recv_to_file_segments:
  assumes "\<forall>seg \<in> set segs. seg \<noteq> [] \<and> length seg \<le> BUFFER_SIZE"
      and "rx (socks w d) = map RecvOk segs @ rest"
      and "got + int (length (concat segs)) = file_size"
  shows "recv_to_file w d path file_size got
           = Inr (True, (set_sock w d ((socks w d)\<lparr>rx := rest\<rparr>))
                          \<lparr>fs := foldl (\<lambda>t seg. fwrite t path seg) (fs w) segs\<rparr>)"
  using assms
proof (induction segs arbitrary: w got)
  case Nil
  then have rest: "rest = rx (socks w d)" by simp
  from Nil show ?case unfolding rest by (simp add: recv_to_file_done set_sock_def)
next
  case (Cons seg segs)
  let ?w1 = "set_sock w d ((socks w d)\<lparr>rx := map RecvOk segs @ rest\<rparr>)"
  let ?w2 = "?w1\<lparr>fs := fwrite (fs ?w1) path seg\<rparr>"
  from Cons.prems have seg: "seg \<noteq> []" "length seg \<le> BUFFER_SIZE" by auto
  with Cons.prems have r: "recv w d = (RecvOk seg, ?w1)"
    by (simp add: recv_def Let_def)
  from seg have "0 < int (length seg)" by simp
  moreover from Cons.prems have "file_size = got + int (length seg) + int (length (concat segs))" by simp
  ultimately have lt: "got < file_size" by linarith
  from Cons.prems have nonempty: "rx (socks w d) \<noteq> []" by simp
  have step: "recv_to_file w d path file_size got
      = recv_to_file ?w2 d path file_size (got + int (length seg))"
    using lt nonempty r by (subst recv_to_file.simps) simp
  have "recv_to_file ?w2 d path file_size (got + int (length seg))
           = Inr (True, (set_sock ?w2 d ((socks ?w2 d)\<lparr>rx := rest\<rparr>))
                          \<lparr>fs := foldl (\<lambda>t seg. fwrite t path seg) (fs ?w2) segs\<rparr>)"
  proof (rule Cons.IH)
    from Cons.prems show "\<forall>seg \<in> set segs. seg \<noteq> [] \<and> length seg \<le> BUFFER_SIZE" by simp
    show "rx (socks ?w2 d) = map RecvOk segs @ rest" by (simp add: set_sock_def)
    from Cons.prems show "got + int (length seg) + int (length (concat segs)) = file_size" by simp
  qed
  with step show ?case by (simp add: set_sock_def)
qed

lemma to_int32_id: "0 \<le> n \<Longrightarrow> n < 2 ^ 31 \<Longrightarrow> to_int32 n = n"
  by (simp add: to_int32_def)



lemma digit_char_facts:
  assumes "d < 10"
  shows "is_digit (digit_char d)" "digit_val (digit_char d) = int d" "\<not> is_space (digit_char d)"
    "digit_char d \<noteq> CHR ''-''" "digit_char d \<noteq> CHR ''+''"
proof -
  from assms have "d \<in> {0, 1, 2, 3, 4, 5, 6, 7, 8, 9}" by auto
  then show "is_digit (digit_char d)" "digit_val (digit_char d) = int d" "\<not> is_space (digit_char d)"
    "digit_char d \<noteq> CHR ''-''" "digit_char d \<noteq> CHR ''+''"
    by (auto simp: is_digit_def digit_val_def is_space_def digit_char_def)
qed

lemma atoi_digits_show_nat:
  "atoi_digits acc (show_nat n @ rest) = atoi_digits (acc * 10 ^ length (show_nat n) + int n) rest"
proof (induction n arbitrary: acc rest rule: show_nat.induct)
  case (1 n)
  show ?case
  proof (cases "n < 10")
    case True
    then show ?thesis
      by (subst show_nat.simps, subst (2) show_nat.simps) (simp add: digit_char_facts)
  next
    case False
    have m: "n mod 10 < 10" by simp
    from False "1.IH"[of acc "digit_char (n mod 10) # rest"] m show ?thesis
      by (subst show_nat.simps, subst (2) show_nat.simps)
         (simp add: digit_char_facts algebra_simps, simp add: zmod_int zdiv_int flip: of_nat_mult of_nat_add)
  qed
qed

lemma show_nat_head: "\<exists>d cs. d < 10 \<and> show_nat n = digit_char d # cs"
proof (induction n rule: show_nat.induct)
  case (1 n)
  show ?case
  proof (cases "n < 10")
    case True
    then show ?thesis by (subst show_nat.simps) auto
  next
    case False
    with "1.IH" obtain d cs where "d < 10" "show_nat (n div 10) = digit_char d # cs" by auto
    with False show ?thesis by (subst show_nat.simps) auto
  qed
qed

lemma strtol_show_int: "strtol (show_int i) = (if i < - (2 ^ 63) then - (2 ^ 63) else if 2 ^ 63 - 1 < i then 2 ^ 63 - 1 else i)"
proof (cases "i < 0")
  case True
  with atoi_digits_show_nat[of 0 "nat (- i)" "[]"] show ?thesis
    by (simp add: strtol_def show_int_def is_space_def)
next
  case False
  obtain d cs where d: "d < 10" "show_nat (nat i) = digit_char d # cs"
    using show_nat_head by blast
  with False atoi_digits_show_nat[of 0 "nat i" "[]"] show ?thesis
    by (simp add: strtol_def show_int_def digit_char_facts)
qed

lemma atoi_show_int: "- (2 ^ 31) \<le> i \<Longrightarrow> i < 2 ^ 31 \<Longrightarrow> atoi (show_int i) = i"
  by (simp add: atoi_def strtol_show_int to_int32_def)

lemma atoi_int32: "- (2 ^ 31) \<le> atoi s \<and> atoi s < 2 ^ 31"
  by (simp add: atoi_def to_int32_def)

text \<open>The size survives \<open>sprintf\<close> and \<open>atoi\<close>.\<close>

lemma show_int_nonempty: "show_int i \<noteq> []"
  using show_nat_head by (auto simp: show_int_def) (metis list.distinct(1))+

lemma send_file_sends:
  assumes "fopen_rb (fs S) src = Some B"
      and "int (length B) < 2 ^ 31"
      and "tx_ok (socks S a) = []"
      and "rx (socks S a) = RecvOk ack1 # RecvOk ack2 # rest"
      and "length ack1 \<le> BUFFER_SIZE" "length ack2 \<le> BUFFER_SIZE"
  shows "fst (send_file S a src) = 1"
    and "tx (socks (snd (send_file S a src)) a) = tx (socks S a) @ show_int (int (length B)) # slices B"
    and "rx (socks (snd (send_file S a src)) a) = rest"
    and "tx_ok (socks (snd (send_file S a src)) a) = []"
  using assms show_int_nonempty[of "int (length B)"]
  by (simp_all add: send_file_def to_int32_id send_with_acknowledgement_def send_def recv_def
      set_sock_def Let_def send_chunks_all_sent)

lemma smain_receive_file_stores:
  assumes "create_directories (fs R) dir = (0, t1)"
      and "fopen_wb t1 (snprintf256 (dir @ ''/'' @ name)) = Some t2"
      and "\<forall>seg \<in> set segs. seg \<noteq> [] \<and> length seg \<le> BUFFER_SIZE"
      and "rx (socks R b) = map RecvOk segs @ rest"
      and "tx_ok (socks R b) = []"
      and "int (length (concat segs)) = file_size"
  shows "\<exists>R'. smain_receive_file R b dir name file_size = Inr (0, R')
           \<and> fs R' = foldl (\<lambda>t seg. fwrite t (snprintf256 (dir @ ''/'' @ name)) seg) t2 segs
           \<and> tx (socks R' b) = tx (socks R b) @ [''ack''] \<and> rx (socks R' b) = rest"
proof -
  let ?p = "snprintf256 (dir @ ''/'' @ name)"
  from assms have loop: "recv_to_file (R\<lparr>fs := t2\<rparr>) b ?p file_size 0
      = Inr (True, (set_sock (R\<lparr>fs := t2\<rparr>) b ((socks (R\<lparr>fs := t2\<rparr>) b)\<lparr>rx := rest\<rparr>))
                          \<lparr>fs := foldl (\<lambda>t seg. fwrite t ?p seg) (fs (R\<lparr>fs := t2\<rparr>)) segs\<rparr>)"
    by (intro recv_to_file_segments) simp_all
  from assms loop show ?thesis
    by (simp add: smain_receive_file_def Let_def and_then_def send_def set_sock_def c_literal_def)
qed

text \<open>Reading the arguments of a command.\<close>

lemma arg_0: "arg (x # xs) 0 = Inr x"
  by (simp add: arg_def)

lemma and_then_simps: "and_then (Inr v) f = f v" "and_then (Inl e) f = Inl e"
  by (simp_all add: and_then_def)

lemma arg_take: "i \<le> k \<Longrightarrow> k \<le> length args \<Longrightarrow> arg (name # take k args) i = arg (name # args) i"
  by (cases i) (auto simp: arg_def)

lemma spdf_extra_arguments:
  assumes "tokenize_command cmd = name # args" "length args \<le> 4" "arity name = Some k"
    "k \<le> length args" "tokenize_command cmd' = name # take k args"
  shows "spdf_process_command w d cmd = spdf_process_command w d cmd'"
proof -
  from assms(3) have k: "k = 3 \<and> name = ''ufile'' \<or> k = 1 \<and> name \<noteq> ''ufile''"
    by (auto simp: arity_def split: if_splits)
  from k show ?thesis
  proof
    assume "k = 3 \<and> name = ''ufile''"
    with assms show ?thesis
      by (simp add: spdf_process_command_def spdf_process_ufile_def Let_def arg_0 arg_take and_then_simps
          cong del: if_weak_cong option.case_cong_weak)
  next
    assume "k = 1 \<and> name \<noteq> ''ufile''"
    with assms show ?thesis
      by (simp add: spdf_process_command_def spdf_process_dfile_def spdf_process_rmfile_def
          spdf_process_display_def spdf_process_dtar_def Let_def arg_0 arg_take and_then_simps
          cong del: if_weak_cong option.case_cong_weak)
  qed
qed

lemma smain_extra_arguments:
  assumes "tokenize_command cmd = name # args" "length args \<le> 4" "arity name = Some k"
    "k \<le> length args" "tokenize_command cmd' = name # take k args"
  shows "smain_process_command w d cmd = smain_process_command w d cmd'"
proof -
  from assms(3) have k: "k = 3 \<and> name = ''ufile'' \<or> k = 1 \<and> name \<noteq> ''ufile''"
    by (auto simp: arity_def split: if_splits)
  from k show ?thesis
  proof
    assume "k = 3 \<and> name = ''ufile''"
    with assms show ?thesis
      by (simp add: smain_process_command_def smain_process_ufile_def Let_def arg_0 arg_take and_then_simps
          cong del: if_weak_cong option.case_cong_weak)
  next
    assume "k = 1 \<and> name \<noteq> ''ufile''"
    with assms show ?thesis
      by (simp add: smain_process_command_def smain_process_dfile_def smain_process_rmfile_def
          smain_process_display_def smain_process_dtar_def Let_def arg_0 arg_take and_then_simps
          cong del: if_weak_cong option.case_cong_weak)
  qed
qed

lemma unknown_command:
  assumes "tokenize_command cmd = name # args" "length args \<le> 4" "arity name = None"
  shows "spdf_process_command w d cmd = Inr (snd (send w d ''Invalid command''))"
    and "smain_process_command w d cmd = Inr (snd (send w d ''Invalid command''))"
  using assms
  by (auto simp: arity_def spdf_process_command_def smain_process_command_def arg_def and_then_def
      c_literal_def split: if_splits)

text \<open>Which sockets a function uses.\<close>

lemma acts_on_refl: "acts_on d w w"
  by (simp add: acts_on_def)

lemma acts_on_trans: "acts_on d w w1 \<Longrightarrow> acts_on d w1 w2 \<Longrightarrow> acts_on d w w2"
  by (auto simp: acts_on_def)

lemma acts_on_fs: "acts_on d w w1 \<Longrightarrow> acts_on d w (w1\<lparr>fs := t\<rparr>)"
  by (simp add: acts_on_def)

lemma acts_on_fs': "acts_on d (w\<lparr>fs := t\<rparr>) w1 \<Longrightarrow> acts_on d w w1"
  by (simp add: acts_on_def)

lemma acts_on_send: "send w d m = (n, w1) \<Longrightarrow> acts_on d w w1"
  by (auto simp: acts_on_def send_def set_sock_def Let_def split: list.splits if_splits)

lemma acts_on_recv: "recv w d = (r, w1) \<Longrightarrow> acts_on d w w1"
  by (auto simp: acts_on_def recv_def set_sock_def Let_def split: list.splits recv_result.splits if_splits)

lemma acts_on_send_with_acknowledgement:
  "send_with_acknowledgement w d m = (n, a, w1) \<Longrightarrow> acts_on d w w1"
  by (auto simp: send_with_acknowledgement_def split: prod.splits if_splits
      intro: acts_on_trans acts_on_send acts_on_recv)

lemma acts_on_receive_with_acknowledgement:
  "receive_with_acknowledgement w d m = (n, a, w1) \<Longrightarrow> acts_on d w w1"
  by (auto simp: receive_with_acknowledgement_def split: prod.splits if_splits
      intro: acts_on_trans acts_on_send acts_on_recv)

lemma acts_on_send_chunks: "send_chunks w d content = (ok, w1) \<Longrightarrow> acts_on d w w1"
proof (induction w d content arbitrary: ok w1 rule: send_chunks.induct)
  case (1 w d content)
  show ?case
  proof (cases "content = []")
    case True
    with "1.prems" show ?thesis by (simp add: send_chunks.simps acts_on_refl)
  next
    case False
    obtain n w2 where s: "send w d (take BUFFER_SIZE content) = (n, w2)"
      by (cases "send w d (take BUFFER_SIZE content)")
    show ?thesis
    proof (cases "n < 0")
      case True
      with False s "1.prems" show ?thesis
        by (subst (asm) send_chunks.simps) (auto intro: acts_on_send)
    next
      case neg: False
      with False s "1.prems" have "send_chunks w2 d (drop BUFFER_SIZE content) = (ok, w1)"
        by (subst (asm) send_chunks.simps) simp
      with "1.IH"[OF False s[symmetric] neg] have "acts_on d w2 w1" by simp
      with s show ?thesis by (blast intro: acts_on_trans acts_on_send)
    qed
  qed
qed

lemma acts_on_send_file:
  assumes "send_file w d p = (r, w1)"
  shows "acts_on d w w1"
proof (cases "fopen_rb (fs w) p")
  case None
  obtain n a w2 where e: "send_with_acknowledgement w d ''-1'' = (n, a, w2)"
    by (metis prod_cases3)
  with None assms have "w1 = w2" by (simp add: send_file_def split: if_splits)
  with e show ?thesis by (simp add: acts_on_send_with_acknowledgement)
next
  case (Some c)
  obtain n a w2 where e2: "send_with_acknowledgement w d (show_int (to_int32 (int (length c)))) = (n, a, w2)"
    by (metis prod_cases3)
  obtain ok w3 where e3: "send_chunks w2 d c = (ok, w3)" by (cases "send_chunks w2 d c")
  obtain rr w4 where e4: "recv w3 d = (rr, w4)" by (cases "recv w3 d")
  from e2 have s2: "acts_on d w w2" by (rule acts_on_send_with_acknowledgement)
  from e3 have "acts_on d w2 w3" by (rule acts_on_send_chunks)
  with s2 have s3: "acts_on d w w3" by (rule acts_on_trans)
  from e4 have "acts_on d w3 w4" by (rule acts_on_recv)
  with s3 have s4: "acts_on d w w4" by (rule acts_on_trans)
  from Some e2 e3 e4 assms have "w1 = w2 \<or> w1 = w3 \<or> w1 = w4"
    by (auto simp: send_file_def Let_def split: if_splits)
  with s2 s3 s4 show ?thesis by blast
qed

lemma acts_on_recv_to_file:
  "recv_to_file w d p n k = Inr (b, w1) \<Longrightarrow> acts_on d w w1"
proof (induction w d p n k arbitrary: b w1 rule: recv_to_file.induct)
  case (1 w d p file_size got)
  show ?case
  proof (cases "got < file_size")
    case False
    with "1.prems" show ?thesis by (simp add: recv_to_file.simps acts_on_refl)
  next
    case True
    with "1.prems" have ne: "rx (socks w d) \<noteq> []"
      by (subst (asm) recv_to_file.simps) (auto split: if_splits)
    obtain r w2 where r: "recv w d = (r, w2)" by (cases "recv w d")
    show ?thesis
    proof (cases "nbytes r < 0")
      case neg: True
      with True ne r "1.prems" show ?thesis
        by (subst (asm) recv_to_file.simps) (auto intro: acts_on_recv)
    next
      case False
      with True ne r "1.prems" have
        "recv_to_file (w2\<lparr>fs := fwrite (fs w2) p (payload r)\<rparr>) d p file_size (got + nbytes r) = Inr (b, w1)"
        by (subst (asm) recv_to_file.simps) simp
      with "1.IH"[OF True ne r[symmetric] False] have "acts_on d (w2\<lparr>fs := fwrite (fs w2) p (payload r)\<rparr>) w1"
        by simp
      then have "acts_on d w2 w1" by (rule acts_on_fs')
      with r show ?thesis by (blast intro: acts_on_trans acts_on_recv)
    qed
  qed
qed

lemma acts_on_smain_receive_file:
  assumes "smain_receive_file w d dir name n = Inr (r, w1)"
  shows "acts_on d w w1"
proof -
  obtain c t1 where cd: "create_directories (fs w) dir = (c, t1)"
    by (cases "create_directories (fs w) dir")
  show ?thesis
  proof (cases "c \<noteq> 0")
    case True
    with cd assms have "w1 = w\<lparr>fs := t1\<rparr>" by (simp add: smain_receive_file_def)
    then show ?thesis by (simp add: acts_on_fs acts_on_refl)
  next
    case False
    show ?thesis
    proof (cases "fopen_wb t1 (snprintf256 (dir @ ''/'' @ name))")
      case None
      with False cd assms have "w1 = w\<lparr>fs := t1\<rparr>" by (simp add: smain_receive_file_def Let_def)
      then show ?thesis by (simp add: acts_on_fs acts_on_refl)
    next
      case (Some t2)
      with False cd assms obtain fin w3 where
        loop: "recv_to_file (w\<lparr>fs := t2\<rparr>) d (snprintf256 (dir @ ''/'' @ name)) n 0 = Inr (fin, w3)"
        by (auto simp: smain_receive_file_def Let_def and_then_def split: sum.splits)
      then have "acts_on d (w\<lparr>fs := t2\<rparr>) w3" by (rule acts_on_recv_to_file)
      then have s3: "acts_on d w w3" by (rule acts_on_fs')
      obtain k w4 where e4: "send w3 d (c_literal ''ack'' 3) = (k, w4)"
        by (cases "send w3 d (c_literal ''ack'' 3)")
      then have "acts_on d w3 w4" by (rule acts_on_send)
      with s3 have s4: "acts_on d w w4" by (rule acts_on_trans)
      from False cd Some loop e4 assms have "w1 = w3 \<or> w1 = w4"
        by (auto simp: smain_receive_file_def Let_def and_then_def split: if_splits)
      with s3 s4 show ?thesis by blast
    qed
  qed
qed

lemma acts_on_send_file_to_server:
  assumes "send_file_to_server w s name n dest = (r, w1)"
  shows "acts_on s w w1"
proof -
  let ?cmd = "snprintf256 (''ufile '' @ name @ '' '' @ show_int n @ '' '' @ dest)"
  obtain k a w2 where e2: "send_with_acknowledgement w s ?cmd = (k, a, w2)"
    by (metis prod_cases3)
  obtain r3 w3 where e3: "send_file w2 s (snprintf256 (''./smain/'' @ name)) = (r3, w3)"
    by (cases "send_file w2 s (snprintf256 (''./smain/'' @ name))")
  obtain rr w4 where e4: "recv w3 s = (rr, w4)" by (cases "recv w3 s")
  from e2 have s2: "acts_on s w w2" by (rule acts_on_send_with_acknowledgement)
  from e3 have "acts_on s w2 w3" by (rule acts_on_send_file)
  with s2 have s3: "acts_on s w w3" by (rule acts_on_trans)
  from e4 have "acts_on s w3 w4" by (rule acts_on_recv)
  with s3 have s4: "acts_on s w w4" by (rule acts_on_trans)
  from e2 e3 e4 assms have "w1 = w2 \<or> w1 = w3 \<or> w1 = w4"
    by (auto simp: send_file_to_server_def Let_def split: if_splits)
  with s2 s3 s4 show ?thesis by blast
qed

lemma acts_on_receive_file_from_server:
  assumes "receive_file_from_server w s path = Inr (r, w1)"
  shows "acts_on s w w1"
proof -
  obtain k a w2 where e2: "send_with_acknowledgement w s (snprintf256 (''dfile '' @ path)) = (k, a, w2)"
    by (metis prod_cases3)
  obtain m sz w3 where e3: "receive_with_acknowledgement w2 s ''ack'' = (m, sz, w3)"
    by (metis prod_cases3)
  from e2 have s2: "acts_on s w w2" by (rule acts_on_send_with_acknowledgement)
  from e3 have "acts_on s w2 w3" by (rule acts_on_receive_with_acknowledgement)
  with s2 have s3: "acts_on s w w3" by (rule acts_on_trans)
  show ?thesis
  proof (cases "k \<le> 0 \<or> m \<le> 0 \<or> sz = None \<or> atoi (the sz) = -1")
    case True
    with e2 e3 assms have "w1 = w2 \<or> w1 = w3"
      by (auto simp: receive_file_from_server_def Let_def and_then_def split: if_splits option.splits)
    with s2 s3 show ?thesis by blast
  next
    case False
    then obtain size_str where sz: "sz = Some size_str" by auto
    with False e2 e3 assms obtain r4 w4 where
      e4: "smain_receive_file w3 s ''./smain/'' path (atoi size_str) = Inr (r4, w4)"
      by (auto simp: receive_file_from_server_def Let_def and_then_def split: sum.splits)
    then have "acts_on s w3 w4" by (rule acts_on_smain_receive_file)
    with s3 have s4: "acts_on s w w4" by (rule acts_on_trans)
    obtain rr w5 where e5: "recv w4 s = (rr, w5)" by (cases "recv w4 s")
    then have "acts_on s w4 w5" by (rule acts_on_recv)
    with s4 have s5: "acts_on s w w5" by (rule acts_on_trans)
    from False sz e2 e3 e4 e5 assms have "w1 = w4 \<or> w1 = w5"
      by (auto simp: receive_file_from_server_def Let_def and_then_def split: if_splits)
    with s4 s5 show ?thesis by blast
  qed
qed

lemma acts_on_remove_file_from_server:
  assumes "remove_file_from_server w s name = (r, w1)"
  shows "acts_on s w w1"
proof -
  obtain k a w2 where e2: "send_with_acknowledgement w s (snprintf256 (''rmfile '' @ name)) = (k, a, w2)"
    by (metis prod_cases3)
  obtain rr w3 where e3: "recv w2 s = (rr, w3)" by (cases "recv w2 s")
  from e2 have s2: "acts_on s w w2" by (rule acts_on_send_with_acknowledgement)
  from e3 have "acts_on s w2 w3" by (rule acts_on_recv)
  with s2 have s3: "acts_on s w w3" by (rule acts_on_trans)
  from e2 e3 assms have "w1 = w2 \<or> w1 = w3"
    by (auto simp: remove_file_from_server_def split: if_splits)
  with s2 s3 show ?thesis by blast
qed




















text \<open>Facts about the archive request.\<close>

lemma smain_send_tar_is_send_file: "smain_send_tar w d p = send_file w d p"
  by (simp add: smain_send_tar_def send_file_def)

lemma fs_send: "fs (snd (send w d m)) = fs w"
  by (simp add: send_def set_sock_def Let_def split: list.splits)

lemma fs_recv: "fs (snd (recv w d)) = fs w"
  by (simp add: recv_def set_sock_def Let_def split: list.splits recv_result.splits)

lemma fs_send_with_acknowledgement: "fs (snd (snd (send_with_acknowledgement w d m))) = fs w"
  by (simp add: send_with_acknowledgement_def split: prod.splits)
     (metis fs_send fs_recv snd_conv)

lemma fs_send_chunks: "fs (snd (send_chunks w d content)) = fs w"
proof -
  obtain ok w1 where r: "send_chunks w d content = (ok, w1)" by (cases "send_chunks w d content")
  have "w\<lparr>fs := fs w\<rparr> = w" by simp
  with send_chunks_fs[where w = w and t = "fs w" and d = d and content = content] r
  have "w1 = w1\<lparr>fs := fs w\<rparr>" by simp
  then have "fs w1 = fs (w1\<lparr>fs := fs w\<rparr>)" by (rule arg_cong)
  with r show ?thesis by simp
qed

lemma fs_send_file: "fs (snd (send_file w d p)) = fs w"
proof -
  obtain n1 a1 w1 where e1: "send_with_acknowledgement w d ''-1'' = (n1, a1, w1)"
    by (metis prod_cases3)
  obtain c where c: "c = (case fopen_rb (fs w) p of None \<Rightarrow> [] | Some b \<Rightarrow> b)" by simp
  obtain n2 a2 w2 where e2: "send_with_acknowledgement w d (show_int (to_int32 (int (length c)))) = (n2, a2, w2)"
    by (metis prod_cases3)
  obtain ok w3 where e3: "send_chunks w2 d c = (ok, w3)" by (cases "send_chunks w2 d c")
  obtain r w4 where e4: "recv w3 d = (r, w4)" by (cases "recv w3 d")
  from e1 fs_send_with_acknowledgement[of w d "''-1''"] have s1: "fs w1 = fs w" by simp
  from e2 fs_send_with_acknowledgement[of w d "show_int (to_int32 (int (length c)))"]
  have s2: "fs w2 = fs w" by simp
  from e3 fs_send_chunks[of w2 d c] s2 have s3: "fs w3 = fs w" by simp
  from e4 fs_recv[of w3 d] s3 have s4: "fs w4 = fs w" by simp
  show ?thesis
    using e1 e2 e3 e4 s1 s2 s3 s4 c
    by (simp add: send_file_def Let_def split: option.splits)
qed

lemma dtar_backend:
  assumes ty: "file_type = ''txt'' \<or> file_type = ''pdf''"
      and s: "s = (if file_type = ''txt'' then Stext else Spdf)"
      and b_ok: "tx_ok (socks w s) = []"
      and b_rx: "rx (socks w s) = RecvOk b1 # RecvOk b2 # b_rest"
      and b_len: "length b1 \<le> BUFFER_SIZE" "length b2 \<le> BUFFER_SIZE"
      and c_ok: "tx_ok (socks w Client) = []"
      and c_rx: "rx (socks w Client) = RecvOk a1 # RecvOk a2 # c_rest"
      and c_len: "length a1 \<le> BUFFER_SIZE" "length a2 \<le> BUFFER_SIZE"
      and own: "fopen_rb (fs w) (snprintf256 (''./tar/'' @ file_type @ ''.tar'')) = Some content"
      and len: "int (length content) < 2 ^ 31"
  shows "\<exists>w'. smain_process_dtar w Client [c, file_type] = Inr (1, w')
           \<and> tx (socks w' Client) = tx (socks w Client) @ show_int (int (length content)) # slices content
           \<and> rx (socks w' Client) = c_rest \<and> tx_ok (socks w' Client) = []
           \<and> tx (socks w' s) = tx (socks w s) @ [''dtar''] \<and> rx (socks w' s) = b_rest
           \<and> fs w' = fs w"
proof -
  let ?w2 = "set_sock w s ((socks w s)\<lparr>rx := b_rest, tx := tx (socks w s) @ [''dtar'']\<rparr>)"
  let ?p = "snprintf256 (''./tar/'' @ file_type @ ''.tar'')"
  from s ty have sc: "s \<noteq> Client" by auto
  have ex: "snd (snd (send_with_acknowledgement w s ''dtar'')) = set_sock w s ((socks w s)\<lparr>tx := tx (socks w s) @ [''dtar''], rx := RecvOk b2 # b_rest\<rparr>)"
     "fst (send_with_acknowledgement w s ''dtar'') = 4"
    using b_ok b_rx b_len
    by (simp_all add: send_with_acknowledgement_def send_def recv_def set_sock_def Let_def)
  let ?w1 = "set_sock w s ((socks w s)\<lparr>tx := tx (socks w s) @ [''dtar''], rx := RecvOk b2 # b_rest\<rparr>)"
  have rc: "recv ?w1 s = (RecvOk b2, set_sock w s ((socks w s)\<lparr>tx := tx (socks w s) @ [''dtar''], rx := b_rest\<rparr>))"
    using b_len by (simp add: recv_def set_sock_def Let_def)
  let ?w3 = "set_sock w s ((socks w s)\<lparr>tx := tx (socks w s) @ [''dtar''], rx := b_rest\<rparr>)"
  have run: "smain_process_dtar w Client [c, file_type] = Inr (send_file ?w3 Client ?p)"
    using ty s ex rc
    by (auto simp: smain_process_dtar_def arg_def and_then_def Let_def smain_send_tar_is_send_file
        split: prod.splits)
  have f3: "fopen_rb (fs ?w3) ?p = Some content" using own by (simp add: set_sock_def)
  have ok3: "tx_ok (socks ?w3 Client) = []" using c_ok sc by (simp add: set_sock_def)
  have rx3: "rx (socks ?w3 Client) = RecvOk a1 # RecvOk a2 # c_rest" using c_rx sc by (simp add: set_sock_def)
  note sf = send_file_sends[OF f3 len ok3 rx3 c_len]
  have other: "socks (snd (send_file ?w3 Client ?p)) s = socks ?w3 s"
    using acts_on_send_file[of ?w3 Client ?p "fst (send_file ?w3 Client ?p)" "snd (send_file ?w3 Client ?p)"] sc
    by (simp add: acts_on_def)
  have fsame: "fs (snd (send_file ?w3 Client ?p)) = fs w"
    using fs_send_file[of ?w3 Client ?p] by (simp add: set_sock_def)
  show ?thesis
    using run sf other sc fsame
    by (cases "send_file ?w3 Client ?p") (simp add: set_sock_def)
qed


lemma dtar_local:
  assumes "tar_util w (fs w) ''./smain'' = Some bundle"
      and "fopen_wb (fs w) ''./tar/c.tar'' = Some t1"
      and len: "int (length bundle) < 2 ^ 31"
      and c_ok: "tx_ok (socks w Client) = []"
      and c_rx: "rx (socks w Client) = RecvOk a1 # RecvOk a2 # c_rest"
      and c_len: "length a1 \<le> BUFFER_SIZE" "length a2 \<le> BUFFER_SIZE"
  shows "\<exists>w'. smain_process_dtar w Client [c, ''c''] = Inr (1, w')
           \<and> tx (socks w' Client) = tx (socks w Client) @ show_int (int (length bundle)) # slices bundle
           \<and> socks w' Stext = socks w Stext \<and> socks w' Spdf = socks w Spdf
           \<and> fopen_rb (fs w') ''./tar/c.tar'' = Some bundle"
proof -
  let ?w1 = "w\<lparr>fs := fwrite t1 ''./tar/c.tar'' bundle\<rparr>"
  have p: "snprintf256 (''./tar/'' @ ''c'' @ ''.tar'') = ''./tar/c.tar''"
    by (simp add: snprintf256_def)
  from assms have made: "create_tar w ''./tar/c.tar'' ''./smain'' = (0, ?w1)"
    by (simp add: create_tar_def)
  from assms(2) have "fopen_rb t1 ''./tar/c.tar'' = Some []" by (rule fopen_rb_fopen_wb)
  then have "fopen_rb (fwrite t1 ''./tar/c.tar'' bundle) ''./tar/c.tar'' = Some ([] @ bundle)"
    by (rule fopen_rb_fwrite)
  then have f1: "fopen_rb (fs ?w1) ''./tar/c.tar'' = Some bundle" by simp
  have ok1: "tx_ok (socks ?w1 Client) = []" using c_ok by simp
  have rx1: "rx (socks ?w1 Client) = RecvOk a1 # RecvOk a2 # c_rest" using c_rx by simp
  note sf = send_file_sends[OF f1 len ok1 rx1 c_len]
  have run: "smain_process_dtar w Client [c, ''c''] = Inr (send_file ?w1 Client ''./tar/c.tar'')"
    using made p
    by (simp add: smain_process_dtar_def arg_def and_then_def Let_def smain_send_tar_is_send_file)
  have other: "socks (snd (send_file ?w1 Client ''./tar/c.tar'')) Stext = socks ?w1 Stext"
      "socks (snd (send_file ?w1 Client ''./tar/c.tar'')) Spdf = socks ?w1 Spdf"
    using acts_on_send_file[of ?w1 Client "''./tar/c.tar''" "fst (send_file ?w1 Client ''./tar/c.tar'')"
        "snd (send_file ?w1 Client ''./tar/c.tar'')"]
    by (simp_all add: acts_on_def)
  have fsame: "fs (snd (send_file ?w1 Client ''./tar/c.tar'')) = fs ?w1"
    by (rule fs_send_file)
  show ?thesis
    using run sf other fsame f1
    by (cases "send_file ?w1 Client ''./tar/c.tar''") simp
qed

lemma spdf_builds_archive:
  assumes "spdf_process_dtar b d0 cmds = Inr (1, b')"
      and "tar_util b (fs b) ''./spdf'' = Some bundle"
  shows "fopen_rb (fs b') ''./tar/pdf.tar'' = Some bundle"
proof -
  from assms obtain t1 where t1: "fopen_wb (fs b) ''./tar/pdf.tar'' = Some t1"
    and b': "b' = b\<lparr>fs := fwrite t1 ''./tar/pdf.tar'' bundle\<rparr>"
    by (auto simp: spdf_process_dtar_def create_tar_def split: option.splits if_splits)
  from t1 have "fopen_rb t1 ''./tar/pdf.tar'' = Some []" by (rule fopen_rb_fopen_wb)
  then have "fopen_rb (fwrite t1 ''./tar/pdf.tar'' bundle) ''./tar/pdf.tar'' = Some ([] @ bundle)"
    by (rule fopen_rb_fwrite)
  with b' show ?thesis by simp
qed

text \<open>A backend that declares the size 0 adds nothing to the listing.\<close>

lemma display_files_from_server_declared_zero:
  assumes "tx_ok (socks w s) = []"
      and "rx (socks w s) = RecvOk a # RecvOk ''0'' # RecvOk answer # rest"
      and "length a \<le> BUFFER_SIZE" "length answer \<le> BUFFER_SIZE"
  shows "\<exists>w'. display_files_from_server w s dir buf = Inr (1, buf, w')
           \<and> (\<forall>x. x \<noteq> s \<longrightarrow> socks w' x = socks w x)
           \<and> tx_ok (socks w' s) = [] \<and> rx (socks w' s) = rest
           \<and> tx (socks w' s) = tx (socks w s) @ [snprintf256 (''display '' @ dir), ''ack'', ''ack'']"
  using assms
  by (simp add: display_files_from_server_def send_with_acknowledgement_def
      receive_with_acknowledgement_def send_def recv_def set_sock_def Let_def and_then_def
      c_str_def NUL_def atoi_0 recv_to_buf_done c_literal_def snprintf256_def)

lemma smain_display_files_nothing:
  assumes "traverse_directory t (snprintf256 (''./smain/'' @ dir)) (snprintf256 (''./smain/'' @ dir)) [] = []"
      and "display_files_from_server m Spdf dir [] = Inr (r1, [], ma)"
      and "display_files_from_server ma Stext dir [] = Inr (r2, [], mb)"
  shows "smain_display_files (m\<lparr>fs := t\<rparr>) d dir
           = Inr (-1, (snd (snd (send_with_acknowledgement mb d ''0'')))\<lparr>fs := t\<rparr>)"
  using assms
  by (simp add: smain_display_files_def display_files_from_server_fs and_then_def Let_def
      send_with_acknowledgement_fs split: prod.splits)





subsection \<open>The exchange primitive\<close>

lemma send_with_acknowledgement_fails_iff:
  "fst (send_with_acknowledgement w d message) \<le> 0 \<longleftrightarrow>
     fst (send w d message) < 0 \<or> fst (recv (snd (send w d message)) d) = RecvErr \<or> message = []"
proof (cases "send w d message")
  case (Pair n w1)
  show ?thesis
  proof (cases "recv w1 d")
    case (Pair r w2)
    with \<open>send w d message = (n, w1)\<close> show ?thesis
      by (cases r) (auto simp: send_with_acknowledgement_def)
  qed
qed

text \<open>
  C9. The exchange is to fail when the write fails, when the peer closed before it
  answered, and when the read fails. On a connection the peer has closed, \<open>recv\<close> returns
  0, which the function does not test for: the exchange of \<open>dfile a.c\<close> returns the
  length 9 of the message, the value its callers take for success, with an empty
  acknowledgement.
\<close>

theorem send_with_acknowledgement_peer_closed:
  "fst (send_with_acknowledgement (world_of (Dir [])) Smain ''dfile a.c'') = 9
   \<and> fst (snd (send_with_acknowledgement (world_of (Dir [])) Smain ''dfile a.c'')) = Some []
   \<and> fst (recv (snd (send (world_of (Dir [])) Smain ''dfile a.c'')) Smain) = RecvOk []"
  by (simp add: send_with_acknowledgement_def send_def recv_def set_sock_def world_of_def
      hung_up_def c_str_def)

subsection \<open>The sentinel size -1\<close>

text \<open>
  C5. When the file to send cannot be opened, \<open>send_file\<close> does the acknowledged
  exchange of \<open>-1\<close> and returns -1: the only frame it can have written is \<open>-1\<close>, no
  body. The client that reads the declared size \<open>-1\<close> returns -1 after that one
  acknowledged read: what the peer sends next is still unread, and no file was created.
\<close>

theorem not_found_sentinel:
  "(fopen_rb (fs w) file_path = None \<longrightarrow>
      send_file w d file_path = (-1, snd (snd (send_with_acknowledgement w d ''-1'')))
      \<and> (tx (socks (snd (send_file w d file_path)) d) = tx (socks w d) @ [''-1'']
         \<or> tx (socks (snd (send_file w d file_path)) d) = tx (socks w d)))
   \<and> (rx (socks c s) = RecvOk ''-1'' # rest \<longrightarrow>
      client_download_file c s p = Inr (-1, snd (snd (receive_with_acknowledgement c s ''ack'')))
      \<and> rx (socks (snd (snd (receive_with_acknowledgement c s ''ack''))) s) = rest
      \<and> fs (snd (snd (receive_with_acknowledgement c s ''ack''))) = fs c)"
proof (intro conjI impI)
  assume absent: "fopen_rb (fs w) file_path = None"
  then show "send_file w d file_path = (-1, snd (snd (send_with_acknowledgement w d ''-1'')))"
    by (simp add: send_file_def split: prod.splits)
  then show "tx (socks (snd (send_file w d file_path)) d) = tx (socks w d) @ [''-1'']
      \<or> tx (socks (snd (send_file w d file_path)) d) = tx (socks w d)"
    by (auto simp: send_with_acknowledgement_def send_def recv_def set_sock_def Let_def
        split: list.splits recv_result.splits if_splits)
next
  assume size: "rx (socks c s) = RecvOk ''-1'' # rest"
  then show "client_download_file c s p = Inr (-1, snd (snd (receive_with_acknowledgement c s ''ack'')))"
    by (auto simp: client_download_file_def receive_with_acknowledgement_def recv_def send_def
        set_sock_def Let_def c_str_def NUL_def atoi_minus_1
        to_size_t_def and_then_def split: list.splits prod.splits)
  from size show "rx (socks (snd (snd (receive_with_acknowledgement c s ''ack''))) s) = rest"
    by (auto simp: receive_with_acknowledgement_def recv_def send_def set_sock_def Let_def
        split: list.splits)
  from size show "fs (snd (snd (receive_with_acknowledgement c s ''ack''))) = fs c"
    by (auto simp: receive_with_acknowledgement_def recv_def send_def set_sock_def Let_def
        split: list.splits)
qed

theorem not_found_sentinel_witness:
  "fopen_rb (fs (world_of (Dir []))) ''./smain/a.c'' = None
   \<and> send_file (world_of (Dir [])) Client ''./smain/a.c''
       = (-1, snd (snd (send_with_acknowledgement (world_of (Dir [])) Client ''-1'')))
   \<and> tx (socks (snd (send_file (world_of (Dir [])) Client ''./smain/a.c'')) Client) = [''-1'']
   \<and> rx (socks (connected (Dir []) Smain [''-1'', ''Failed to download file'']) Smain)
       = [RecvOk ''-1'', RecvOk ''Failed to download file'']
   \<and> client_download_file (connected (Dir []) Smain [''-1'', ''Failed to download file'']) Smain ''a.c''
       = Inr (-1, snd (snd (receive_with_acknowledgement
                  (connected (Dir []) Smain [''-1'', ''Failed to download file'']) Smain ''ack'')))
   \<and> rx (socks (snd (snd (receive_with_acknowledgement
          (connected (Dir []) Smain [''-1'', ''Failed to download file'']) Smain ''ack''))) Smain)
       = [RecvOk ''Failed to download file'']"
proof -
  have absent: "fopen_rb (fs (world_of (Dir []))) ''./smain/a.c'' = None"
    by (simp add: fopen_rb_def world_of_def components_def)
  have size: "rx (socks (connected (Dir []) Smain [''-1'', ''Failed to download file'']) Smain)
      = RecvOk ''-1'' # [RecvOk ''Failed to download file'']"
    by (simp add: connected_def set_sock_def peer_sends_def)
  have sent: "tx (socks (snd (snd (send_with_acknowledgement (world_of (Dir [])) Client ''-1''))) Client) = [''-1'']"
    by (simp add: send_with_acknowledgement_def send_def recv_def set_sock_def world_of_def hung_up_def)
  from not_found_sentinel [of "world_of (Dir [])" "''./smain/a.c''" Client
      "connected (Dir []) Smain [''-1'', ''Failed to download file'']" Smain
      "[RecvOk ''Failed to download file'']" "''a.c''"] absent size sent
  show ?thesis by simp
qed

subsection \<open>Upload failures on the backend\<close>

text \<open>
  C6. An upload whose directory or file cannot be created is to be reported as failed.
  In the working directory below, \<open>./spdf/f\<close> is a regular file. For the destination
  \<open>f/g\<close> the directory creation fails and \<open>receive_file\<close> returns -1 at once; for the
  destination \<open>f\<close> the file \<open>./spdf/f/r.pdf\<close> cannot be created and \<open>receive_file\<close>
  returns -1 after the size handshake. \<open>process_ufile\<close> drops that result and returns 1,
  so both times the reply is the 14 bytes of the success message, nothing is stored,
  and the body is left unread on the connection.
\<close>

theorem spdf_upload_failure_replies_success:
  "fst (create_directories (Dir [(''spdf'', Dir [(''f'', Reg ''x'')])]) ''./spdf/f/g'') = -1
   \<and> observe Client (spdf_process_command
         (connected (Dir [(''spdf'', Dir [(''f'', Reg ''x'')])]) Client [''4'', ''data''])
         Client ''ufile r.pdf 4 f/g'')
       = Inr ([''File received ''], [RecvOk ''4'', RecvOk ''data''],
              Dir [(''spdf'', Dir [(''f'', Reg ''x'')])])
   \<and> fopen_wb (Dir [(''spdf'', Dir [(''f'', Reg ''x'')])]) ''./spdf/f/r.pdf'' = None
   \<and> observe Client (spdf_process_command
         (connected (Dir [(''spdf'', Dir [(''f'', Reg ''x'')])]) Client [''4'', ''data''])
         Client ''ufile r.pdf 4 f'')
       = Inr ([''ack'', ''File received ''], [RecvOk ''data''],
              Dir [(''spdf'', Dir [(''f'', Reg ''x'')])])"
  by code_simp

subsection \<open>The end of a session\<close>

text \<open>
  C8. When the peer disconnects, the command loop is to end and the connection to be
  closed. On a connection the peer has closed, \<open>receive_with_acknowledgement\<close> returns
  0. The backend's loop leaves on 0 and closes the socket. The coordinator's loop tests
  only for a negative result, which the function never returns: it goes on to
  \<open>process_command\<close> with the empty command, which reads \<open>commands[0]\<close> of an array in
  which no token was stored.
\<close>

theorem smain_prcclient_peer_closed:
  "fst (receive_with_acknowledgement (connected t Client []) Client ''ack'') = 0
   \<and> smain_prcclient (Suc k) (connected t Client []) Client = Some (Inl Undefined)
   \<and> spdf_prcclient (Suc k) (connected t Client []) Client
       = Some (Inr (close_fd (snd (snd (receive_with_acknowledgement (connected t Client []) Client ''ack''))) Client))"
  by (simp add: receive_with_acknowledgement_def recv_def send_def set_sock_def connected_def
      peer_sends_def world_of_def c_str_def smain_process_command_def tokenize_command_def
      arg_def and_then_def)

subsection \<open>Listings of length zero\<close>

text \<open>
  C3, as the claim states it: a list request on an empty root is answered as a success.
  It is not. With the coordinator's root empty and both backends announcing the size 0,
  \<open>process_display\<close> returns -1 and the frames the client gets are \<open>0\<close> and then
  \<open>Failed to get files\<close>; the client's \<open>display_files\<close> returns -1 on the size 0.
\<close>

theorem empty_listing_reported_as_failure:
  "observe Client (smain_process_command
      (coordinator (Dir [(''smain'', Dir [])]) [''ack'']
         [''ack'', ''0'', ''Failed to get files''] [''ack'', ''0'', ''Failed to get files''])
      Client ''display .'')
     = Inr ([''0'', ''Failed to get files''], [], Dir [(''smain'', Dir [])])
   \<and> map_sum id fst (smain_process_display
      (coordinator (Dir [(''smain'', Dir [])]) [''ack'']
         [''ack'', ''0'', ''Failed to get files''] [''ack'', ''0'', ''Failed to get files''])
      Client [''display'', ''.'']) = Inr (-1)
   \<and> map_sum id fst (client_display_files
      (connected (Dir []) Smain [''ack'', ''0'', ''Failed to get files'']) Smain ''.'') = Inr (-1)"
  by (simp add: observe_def smain_process_command_def tokenize_command_def arg_def and_then_def
      smain_process_display_def smain_display_files_def display_files_from_server_def
      client_display_files_def to_size_t_def
      send_with_acknowledgement_def receive_with_acknowledgement_def recv_def send_def set_sock_def
      Let_def c_str_def NUL_def atoi_0 recv_to_buf_done c_literal_def coordinator_def connected_def
      world_of_def peer_sends_def hung_up_def snprintf256_def traverse_directory_def opendir_def
      components_def dot_entries_def reply_def)

text \<open>
  C3, amended. Whenever the listing is of length zero, a server announces the size 0 by
  the acknowledged exchange, sends no body, returns -1 from \<open>display_files\<close> and replies
  \<open>Failed to get files\<close>: the backend when its walk finds nothing, the coordinator
  when its walk finds nothing and both backends added nothing. The client that reads
  the declared size 0 returns -1 at once: the next frame stays unread and no file
  \<open>display.txt\<close> is created.
\<close>

theorem empty_listing_declared_zero:
  "(tokenize_command cmd = [''display'', dir]
      \<and> traverse_directory (fs w) (snprintf256 (''./spdf/'' @ dir)) (snprintf256 (''./spdf/'' @ dir)) [] = [] \<longrightarrow>
      spdf_display_files w d (snprintf256 (''./spdf/'' @ dir))
        = (-1, snd (snd (send_with_acknowledgement w d ''0'')))
      \<and> spdf_process_command w d cmd
        = Inr (snd (send (snd (snd (send_with_acknowledgement w d ''0''))) d ''Failed to get files'')))
   \<and> (tokenize_command cmd = [''display'', dir]
      \<and> traverse_directory (fs m) (snprintf256 (''./smain/'' @ dir)) (snprintf256 (''./smain/'' @ dir)) [] = []
      \<and> display_files_from_server m Spdf dir [] = Inr (r1, [], ma)
      \<and> display_files_from_server ma Stext dir [] = Inr (r2, [], mb) \<longrightarrow>
      smain_display_files m d dir = Inr (-1, snd (snd (send_with_acknowledgement mb d ''0'')))
      \<and> smain_process_command m d cmd
        = Inr (snd (send (snd (snd (send_with_acknowledgement mb d ''0''))) d ''Failed to get files'')))
   \<and> (rx (socks c s) = RecvOk a # RecvOk ''0'' # rest \<and> length a \<le> BUFFER_SIZE \<and> tx_ok (socks c s) = [] \<longrightarrow>
      (\<exists>c'. client_display_files c s p = Inr (-1, c') \<and> rx (socks c' s) = rest \<and> fs c' = fs c))"
proof (intro conjI impI)
  assume h: "tokenize_command cmd = [''display'', dir]
      \<and> traverse_directory (fs w) (snprintf256 (''./spdf/'' @ dir)) (snprintf256 (''./spdf/'' @ dir)) [] = []"
  then show disp: "spdf_display_files w d (snprintf256 (''./spdf/'' @ dir))
        = (-1, snd (snd (send_with_acknowledgement w d ''0'')))"
    by (simp add: spdf_display_files_def Let_def split: prod.splits)
  with h show "spdf_process_command w d cmd
        = Inr (snd (send (snd (snd (send_with_acknowledgement w d ''0''))) d ''Failed to get files''))"
    by (simp add: spdf_process_command_def spdf_process_display_def arg_def and_then_def reply_def c_literal_def)
next
  assume h: "tokenize_command cmd = [''display'', dir]
      \<and> traverse_directory (fs m) (snprintf256 (''./smain/'' @ dir)) (snprintf256 (''./smain/'' @ dir)) [] = []
      \<and> display_files_from_server m Spdf dir [] = Inr (r1, [], ma)
      \<and> display_files_from_server ma Stext dir [] = Inr (r2, [], mb)"
  then show disp: "smain_display_files m d dir = Inr (-1, snd (snd (send_with_acknowledgement mb d ''0'')))"
    by (simp add: smain_display_files_def Let_def and_then_def split: prod.splits)
  with h show "smain_process_command m d cmd
        = Inr (snd (send (snd (snd (send_with_acknowledgement mb d ''0''))) d ''Failed to get files''))"
    by (simp add: smain_process_command_def smain_process_display_def arg_def and_then_def reply_def c_literal_def)
next
  assume "rx (socks c s) = RecvOk a # RecvOk ''0'' # rest \<and> length a \<le> BUFFER_SIZE \<and> tx_ok (socks c s) = []"
  then show "\<exists>c'. client_display_files c s p = Inr (-1, c') \<and> rx (socks c' s) = rest \<and> fs c' = fs c"
    by (auto simp: client_display_files_def send_with_acknowledgement_def receive_with_acknowledgement_def
        recv_def send_def set_sock_def Let_def c_str_def NUL_def atoi_0 to_size_t_def and_then_def
        c_literal_def)
qed

theorem empty_listing_declared_zero_witness:
  "observe Client (spdf_process_command
      (connected (Dir [(''spdf'', Dir [(''docs'', Dir [])])]) Client [''ack'']) Client ''display docs'')
     = Inr ([''0'', ''Failed to get files''], [], Dir [(''spdf'', Dir [(''docs'', Dir [])])])
   \<and> observe Client (smain_process_command
      (coordinator (Dir [(''smain'', Dir [(''docs'', Dir [])])]) [''ack'']
         [''ack'', ''0'', ''Failed to get files''] [''ack'', ''0'', ''Failed to get files''])
      Client ''display docs'')
     = Inr ([''0'', ''Failed to get files''], [], Dir [(''smain'', Dir [(''docs'', Dir [])])])
   \<and> (\<exists>c'. client_display_files (connected (Dir []) Smain [''ack'', ''0'', ''Failed to get files''])
            Smain ''docs'' = Inr (-1, c')
         \<and> rx (socks c' Smain) = [RecvOk ''Failed to get files''] \<and> fs c' = Dir [])"
proof -
  let ?w = "connected (Dir [(''spdf'', Dir [(''docs'', Dir [])])]) Client [''ack'']"
  let ?m = "coordinator (Dir [(''smain'', Dir [(''docs'', Dir [])])]) [''ack'']
         [''ack'', ''0'', ''Failed to get files''] [''ack'', ''0'', ''Failed to get files'']"
  let ?done = "\<lparr>rx = [], tx_ok = [], tx = [''display docs'', ''ack'', ''ack''], is_open = True\<rparr>"
  let ?ma = "set_sock ?m Spdf ?done"
  let ?mb = "set_sock ?ma Stext ?done"
  let ?c = "connected (Dir []) Smain [''ack'', ''0'', ''Failed to get files'']"
  have tok: "tokenize_command ''display docs'' = [''display'', ''docs'']"
    by (simp add: tokenize_command_def)
  have h1: "traverse_directory (fs ?w) (snprintf256 (''./spdf/'' @ ''docs'')) (snprintf256 (''./spdf/'' @ ''docs'')) [] = []"
    by (simp add: traverse_directory_def opendir_def components_def snprintf256_def dot_entries_def
        connected_def world_of_def set_sock_def)
  have h2: "traverse_directory (fs ?m) (snprintf256 (''./smain/'' @ ''docs'')) (snprintf256 (''./smain/'' @ ''docs'')) [] = []"
    by (simp add: traverse_directory_def opendir_def components_def snprintf256_def dot_entries_def
        coordinator_def connected_def world_of_def set_sock_def)
  have h3: "display_files_from_server ?m Spdf ''docs'' [] = Inr (1, [], ?ma)"
    by (simp add: display_files_from_server_def send_with_acknowledgement_def
        receive_with_acknowledgement_def recv_def send_def set_sock_def Let_def c_str_def NUL_def
        atoi_0 recv_to_buf_done c_literal_def coordinator_def connected_def world_of_def
        peer_sends_def hung_up_def snprintf256_def and_then_def)
  have h4: "display_files_from_server ?ma Stext ''docs'' [] = Inr (1, [], ?mb)"
    by (simp add: display_files_from_server_def send_with_acknowledgement_def
        receive_with_acknowledgement_def recv_def send_def set_sock_def Let_def c_str_def NUL_def
        atoi_0 recv_to_buf_done c_literal_def coordinator_def connected_def world_of_def
        peer_sends_def hung_up_def snprintf256_def and_then_def)
  have h5: "rx (socks ?c Smain) = RecvOk ''ack'' # RecvOk ''0'' # [RecvOk ''Failed to get files'']
      \<and> length ''ack'' \<le> BUFFER_SIZE \<and> tx_ok (socks ?c Smain) = []"
    by (simp add: connected_def world_of_def peer_sends_def set_sock_def)
  have fsc: "fs ?c = Dir []"
    by (simp add: connected_def world_of_def set_sock_def)
  from empty_listing_declared_zero [where cmd = "''display docs''" and dir = "''docs''" and w = ?w
      and d = Client and m = ?m and ?r1.0 = 1 and ma = ?ma and ?r2.0 = 1 and mb = ?mb and c = ?c
      and s = Smain and a = "''ack''" and rest = "[RecvOk ''Failed to get files'']" and p = "''docs''"]
    tok h1 h2 h3 h4 h5
  have "spdf_process_command ?w Client ''display docs''
        = Inr (snd (send (snd (snd (send_with_acknowledgement ?w Client ''0''))) Client ''Failed to get files''))"
    and "smain_process_command ?m Client ''display docs''
        = Inr (snd (send (snd (snd (send_with_acknowledgement ?mb Client ''0''))) Client ''Failed to get files''))"
    and "\<exists>c'. client_display_files ?c Smain ''docs'' = Inr (-1, c')
         \<and> rx (socks c' Smain) = [RecvOk ''Failed to get files''] \<and> fs c' = fs ?c"
    by simp_all
  then show ?thesis
    by (simp add: fsc observe_def send_with_acknowledgement_def recv_def send_def set_sock_def
        coordinator_def connected_def world_of_def peer_sends_def hung_up_def c_str_def)
qed

subsection \<open>A directory that does not exist\<close>

text \<open>
  C10. Let \<open>opendir\<close> fail on the path in one file system and open an empty directory
  in the other. The walk adds nothing in either, so the backend's \<open>display_files\<close> does
  the same thing in both: the acknowledged exchange of the size 0, then the result -1.
  The coordinator's \<open>display_files\<close> returns the same result and leaves every socket in
  the same state in both, whatever its backends answer. When what the two backends
  return adds nothing to the listing, it does the acknowledged exchange of the size 0
  with its peer and returns -1, in both; with two backends that each declare the size 0,
  the one frame written to the client is \<open>0\<close>, in both. No reply tells the two cases
  apart.
\<close>

theorem missing_directory_lists_like_empty:
  "(opendir t1 p = None \<and> opendir t2 p = Some [] \<longrightarrow>
      traverse_directory t1 p p [] = [] \<and> traverse_directory t2 p p [] = []
      \<and> spdf_display_files (w\<lparr>fs := t1\<rparr>) d p
          = (-1, (snd (snd (send_with_acknowledgement w d ''0'')))\<lparr>fs := t1\<rparr>)
      \<and> spdf_display_files (w\<lparr>fs := t2\<rparr>) d p
          = (-1, (snd (snd (send_with_acknowledgement w d ''0'')))\<lparr>fs := t2\<rparr>))
   \<and> (opendir t1 (snprintf256 (''./smain/'' @ dir)) = None
      \<and> opendir t2 (snprintf256 (''./smain/'' @ dir)) = Some [] \<longrightarrow>
      map_sum id (\<lambda>(r, w'). (r, socks w')) (smain_display_files (m\<lparr>fs := t1\<rparr>) d dir)
        = map_sum id (\<lambda>(r, w'). (r, socks w')) (smain_display_files (m\<lparr>fs := t2\<rparr>) d dir))
   \<and> (opendir t1 (snprintf256 (''./smain/'' @ dir)) = None
      \<and> opendir t2 (snprintf256 (''./smain/'' @ dir)) = Some []
      \<and> display_files_from_server m Spdf dir [] = Inr (r1, [], ma)
      \<and> display_files_from_server ma Stext dir [] = Inr (r2, [], mb) \<longrightarrow>
      smain_display_files (m\<lparr>fs := t1\<rparr>) d dir
        = Inr (-1, (snd (snd (send_with_acknowledgement mb d ''0'')))\<lparr>fs := t1\<rparr>)
      \<and> smain_display_files (m\<lparr>fs := t2\<rparr>) d dir
        = Inr (-1, (snd (snd (send_with_acknowledgement mb d ''0'')))\<lparr>fs := t2\<rparr>))
   \<and> (opendir t1 (snprintf256 (''./smain/'' @ dir)) = None
      \<and> opendir t2 (snprintf256 (''./smain/'' @ dir)) = Some []
      \<and> tx_ok (socks m Spdf) = [] \<and> rx (socks m Spdf) = RecvOk a1 # RecvOk ''0'' # RecvOk answer1 # rest1
      \<and> length a1 \<le> BUFFER_SIZE \<and> length answer1 \<le> BUFFER_SIZE
      \<and> tx_ok (socks m Stext) = [] \<and> rx (socks m Stext) = RecvOk a2 # RecvOk ''0'' # RecvOk answer2 # rest2
      \<and> length a2 \<le> BUFFER_SIZE \<and> length answer2 \<le> BUFFER_SIZE
      \<and> tx_ok (socks m Client) = [] \<and> rx (socks m Client) = RecvOk a3 # rest3
      \<and> length a3 \<le> BUFFER_SIZE \<longrightarrow>
      (\<exists>w'. smain_display_files (m\<lparr>fs := t1\<rparr>) Client dir = Inr (-1, w')
          \<and> tx (socks w' Client) = tx (socks m Client) @ [''0'']
          \<and> rx (socks w' Client) = rest3 \<and> fs w' = t1)
      \<and> (\<exists>w'. smain_display_files (m\<lparr>fs := t2\<rparr>) Client dir = Inr (-1, w')
          \<and> tx (socks w' Client) = tx (socks m Client) @ [''0'']
          \<and> rx (socks w' Client) = rest3 \<and> fs w' = t2))"
proof (intro conjI impI)
  assume h: "opendir t1 p = None \<and> opendir t2 p = Some []"
  then show e1: "traverse_directory t1 p p [] = []" and e2: "traverse_directory t2 p p [] = []"
    by (simp_all add: traverse_directory_def dot_entries_def)
  from e1 show "spdf_display_files (w\<lparr>fs := t1\<rparr>) d p
          = (-1, (snd (snd (send_with_acknowledgement w d ''0'')))\<lparr>fs := t1\<rparr>)"
    by (simp add: spdf_display_files_def Let_def send_with_acknowledgement_fs split: prod.splits)
  from e2 show "spdf_display_files (w\<lparr>fs := t2\<rparr>) d p
          = (-1, (snd (snd (send_with_acknowledgement w d ''0'')))\<lparr>fs := t2\<rparr>)"
    by (simp add: spdf_display_files_def Let_def send_with_acknowledgement_fs split: prod.splits)
next
  assume "opendir t1 (snprintf256 (''./smain/'' @ dir)) = None
      \<and> opendir t2 (snprintf256 (''./smain/'' @ dir)) = Some []"
  then have "traverse_directory t1 (snprintf256 (''./smain/'' @ dir)) (snprintf256 (''./smain/'' @ dir)) []
     = traverse_directory t2 (snprintf256 (''./smain/'' @ dir)) (snprintf256 (''./smain/'' @ dir)) []"
    by (simp add: traverse_directory_def dot_entries_def)
  then show "map_sum id (\<lambda>(r, w'). (r, socks w')) (smain_display_files (m\<lparr>fs := t1\<rparr>) d dir)
        = map_sum id (\<lambda>(r, w'). (r, socks w')) (smain_display_files (m\<lparr>fs := t2\<rparr>) d dir)"
    by (rule smain_display_files_fs)
next
  assume h: "opendir t1 (snprintf256 (''./smain/'' @ dir)) = None
      \<and> opendir t2 (snprintf256 (''./smain/'' @ dir)) = Some []
      \<and> display_files_from_server m Spdf dir [] = Inr (r1, [], ma)
      \<and> display_files_from_server ma Stext dir [] = Inr (r2, [], mb)"
  then have e: "traverse_directory t1 (snprintf256 (''./smain/'' @ dir)) (snprintf256 (''./smain/'' @ dir)) [] = []"
      "traverse_directory t2 (snprintf256 (''./smain/'' @ dir)) (snprintf256 (''./smain/'' @ dir)) [] = []"
    by (simp_all add: traverse_directory_def dot_entries_def)
  from h have pa: "display_files_from_server m Spdf dir [] = Inr (r1, [], ma)"
    and pb: "display_files_from_server ma Stext dir [] = Inr (r2, [], mb)"
    by simp_all
  from e(1) pa pb show "smain_display_files (m\<lparr>fs := t1\<rparr>) d dir
        = Inr (-1, (snd (snd (send_with_acknowledgement mb d ''0'')))\<lparr>fs := t1\<rparr>)"
    by (rule smain_display_files_nothing)
  from e(2) pa pb show "smain_display_files (m\<lparr>fs := t2\<rparr>) d dir
        = Inr (-1, (snd (snd (send_with_acknowledgement mb d ''0'')))\<lparr>fs := t2\<rparr>)"
    by (rule smain_display_files_nothing)
next
  assume h: "opendir t1 (snprintf256 (''./smain/'' @ dir)) = None
      \<and> opendir t2 (snprintf256 (''./smain/'' @ dir)) = Some []
      \<and> tx_ok (socks m Spdf) = [] \<and> rx (socks m Spdf) = RecvOk a1 # RecvOk ''0'' # RecvOk answer1 # rest1
      \<and> length a1 \<le> BUFFER_SIZE \<and> length answer1 \<le> BUFFER_SIZE
      \<and> tx_ok (socks m Stext) = [] \<and> rx (socks m Stext) = RecvOk a2 # RecvOk ''0'' # RecvOk answer2 # rest2
      \<and> length a2 \<le> BUFFER_SIZE \<and> length answer2 \<le> BUFFER_SIZE
      \<and> tx_ok (socks m Client) = [] \<and> rx (socks m Client) = RecvOk a3 # rest3
      \<and> length a3 \<le> BUFFER_SIZE"
  then have e: "traverse_directory t (snprintf256 (''./smain/'' @ dir)) (snprintf256 (''./smain/'' @ dir)) [] = []"
    if "t \<in> {t1, t2}" for t
    using that by (auto simp: traverse_directory_def dot_entries_def)
  from h obtain ma where pa: "display_files_from_server m Spdf dir [] = Inr (1, [], ma)"
    and sa: "\<forall>x. x \<noteq> Spdf \<longrightarrow> socks ma x = socks m x"
    using display_files_from_server_declared_zero[of m Spdf a1 answer1 rest1 dir "[]"] by blast
  from h sa have "tx_ok (socks ma Stext) = []" "rx (socks ma Stext) = RecvOk a2 # RecvOk ''0'' # RecvOk answer2 # rest2"
    by simp_all
  with h obtain mb where pb: "display_files_from_server ma Stext dir [] = Inr (1, [], mb)"
    and sb: "\<forall>x. x \<noteq> Stext \<longrightarrow> socks mb x = socks ma x"
    using display_files_from_server_declared_zero[of ma Stext a2 answer2 rest2 dir "[]"] by blast
  from sa sb have c: "socks mb Client = socks m Client" by simp
  have both: "\<forall>t \<in> {t1, t2}. \<exists>w'. smain_display_files (m\<lparr>fs := t\<rparr>) Client dir = Inr (-1, w')
          \<and> tx (socks w' Client) = tx (socks m Client) @ [''0'']
          \<and> rx (socks w' Client) = rest3 \<and> fs w' = t"
  proof
    fix t assume "t \<in> {t1, t2}"
    then have "smain_display_files (m\<lparr>fs := t\<rparr>) Client dir
        = Inr (-1, (snd (snd (send_with_acknowledgement mb Client ''0'')))\<lparr>fs := t\<rparr>)"
      using e pa pb by (intro smain_display_files_nothing) blast+
    moreover from h c have "tx (socks (snd (snd (send_with_acknowledgement mb Client ''0''))) Client)
          = tx (socks m Client) @ [''0'']"
        "rx (socks (snd (snd (send_with_acknowledgement mb Client ''0''))) Client) = rest3"
      by (simp_all add: send_with_acknowledgement_def send_def recv_def set_sock_def Let_def)
    ultimately show "\<exists>w'. smain_display_files (m\<lparr>fs := t\<rparr>) Client dir = Inr (-1, w')
          \<and> tx (socks w' Client) = tx (socks m Client) @ [''0'']
          \<and> rx (socks w' Client) = rest3 \<and> fs w' = t"
      by simp
  qed
  from both show "\<exists>w'. smain_display_files (m\<lparr>fs := t1\<rparr>) Client dir = Inr (-1, w')
          \<and> tx (socks w' Client) = tx (socks m Client) @ [''0'']
          \<and> rx (socks w' Client) = rest3 \<and> fs w' = t1"
    by blast
  from both show "\<exists>w'. smain_display_files (m\<lparr>fs := t2\<rparr>) Client dir = Inr (-1, w')
          \<and> tx (socks w' Client) = tx (socks m Client) @ [''0'']
          \<and> rx (socks w' Client) = rest3 \<and> fs w' = t2"
    by blast
qed

theorem missing_directory_lists_like_empty_witness:
  "opendir (Dir [(''spdf'', Dir []), (''smain'', Dir [])]) ''./spdf/docs'' = None
   \<and> opendir (Dir [(''spdf'', Dir [(''docs'', Dir [])]), (''smain'', Dir [(''docs'', Dir [])])])
        ''./spdf/docs'' = Some []
   \<and> fst (spdf_display_files
        ((connected (Dir []) Client [''ack''])\<lparr>fs := Dir [(''spdf'', Dir []), (''smain'', Dir [])]\<rparr>)
        Client ''./spdf/docs'') = -1
   \<and> tx (socks (snd (spdf_display_files
        ((connected (Dir []) Client [''ack''])\<lparr>fs := Dir [(''spdf'', Dir []), (''smain'', Dir [])]\<rparr>)
        Client ''./spdf/docs'')) Client) = [''0'']
   \<and> tx (socks (snd (spdf_display_files
        ((connected (Dir []) Client [''ack''])
           \<lparr>fs := Dir [(''spdf'', Dir [(''docs'', Dir [])]), (''smain'', Dir [(''docs'', Dir [])])]\<rparr>)
        Client ''./spdf/docs'')) Client) = [''0'']
   \<and> map_sum id (\<lambda>(r, w'). (r, socks w')) (smain_display_files
        ((coordinator (Dir []) [''ack''] [] [])\<lparr>fs := Dir [(''spdf'', Dir []), (''smain'', Dir [])]\<rparr>)
        Client ''docs'')
     = map_sum id (\<lambda>(r, w'). (r, socks w')) (smain_display_files
        ((coordinator (Dir []) [''ack''] [] [])
           \<lparr>fs := Dir [(''spdf'', Dir [(''docs'', Dir [])]), (''smain'', Dir [(''docs'', Dir [])])]\<rparr>)
        Client ''docs'')
   \<and> (\<exists>w'. smain_display_files
        ((coordinator (Dir []) [''ack''] [''ack'', ''0'', ''Failed to get files'']
            [''ack'', ''0'', ''Failed to get files''])
           \<lparr>fs := Dir [(''spdf'', Dir []), (''smain'', Dir [])]\<rparr>)
        Client ''docs'' = Inr (-1, w')
       \<and> tx (socks w' Client) = [''0''] \<and> rx (socks w' Client) = [])
   \<and> (\<exists>w'. smain_display_files
        ((coordinator (Dir []) [''ack''] [''ack'', ''0'', ''Failed to get files'']
            [''ack'', ''0'', ''Failed to get files''])
           \<lparr>fs := Dir [(''spdf'', Dir [(''docs'', Dir [])]), (''smain'', Dir [(''docs'', Dir [])])]\<rparr>)
        Client ''docs'' = Inr (-1, w')
       \<and> tx (socks w' Client) = [''0''] \<and> rx (socks w' Client) = [])"
proof -
  let ?t1 = "Dir [(''spdf'', Dir []), (''smain'', Dir [])]"
  let ?t2 = "Dir [(''spdf'', Dir [(''docs'', Dir [])]), (''smain'', Dir [(''docs'', Dir [])])]"
  let ?M = "coordinator (Dir []) [''ack''] [''ack'', ''0'', ''Failed to get files'']
            [''ack'', ''0'', ''Failed to get files'']"
  have h1: "opendir ?t1 ''./spdf/docs'' = None \<and> opendir ?t2 ''./spdf/docs'' = Some []"
    by (simp add: opendir_def components_def)
  have h2: "opendir ?t1 (snprintf256 (''./smain/'' @ ''docs'')) = None
      \<and> opendir ?t2 (snprintf256 (''./smain/'' @ ''docs'')) = Some []"
    by (simp add: opendir_def components_def snprintf256_def)
  have sent: "tx (socks (snd (snd (send_with_acknowledgement (connected (Dir []) Client [''ack'']) Client ''0''))) Client) = [''0'']"
    by (simp add: send_with_acknowledgement_def send_def recv_def set_sock_def connected_def
        world_of_def peer_sends_def)
  from missing_directory_lists_like_empty [where ?t1.0 = ?t1 and ?t2.0 = ?t2 and p = "''./spdf/docs''"
      and w = "connected (Dir []) Client [''ack'']" and d = Client, THEN conjunct1] h1
  have backend: "spdf_display_files ((connected (Dir []) Client [''ack''])\<lparr>fs := ?t1\<rparr>) Client ''./spdf/docs''
          = (-1, (snd (snd (send_with_acknowledgement (connected (Dir []) Client [''ack'']) Client ''0'')))\<lparr>fs := ?t1\<rparr>)
      \<and> spdf_display_files ((connected (Dir []) Client [''ack''])\<lparr>fs := ?t2\<rparr>) Client ''./spdf/docs''
          = (-1, (snd (snd (send_with_acknowledgement (connected (Dir []) Client [''ack'']) Client ''0'')))\<lparr>fs := ?t2\<rparr>)"
    by blast
  from missing_directory_lists_like_empty [where ?t1.0 = ?t1 and ?t2.0 = ?t2 and dir = "''docs''"
      and m = "coordinator (Dir []) [''ack''] [] []" and d = Client, THEN conjunct2, THEN conjunct1] h2
  have same: "map_sum id (\<lambda>(r, w'). (r, socks w')) (smain_display_files
        ((coordinator (Dir []) [''ack''] [] [])\<lparr>fs := ?t1\<rparr>) Client ''docs'')
     = map_sum id (\<lambda>(r, w'). (r, socks w')) (smain_display_files
        ((coordinator (Dir []) [''ack''] [] [])\<lparr>fs := ?t2\<rparr>) Client ''docs'')"
    by blast
  have h3: "tx_ok (socks ?M Spdf) = []
      \<and> rx (socks ?M Spdf) = RecvOk ''ack'' # RecvOk ''0'' # RecvOk ''Failed to get files'' # []
      \<and> length ''ack'' \<le> BUFFER_SIZE \<and> length ''Failed to get files'' \<le> BUFFER_SIZE
      \<and> tx_ok (socks ?M Stext) = []
      \<and> rx (socks ?M Stext) = RecvOk ''ack'' # RecvOk ''0'' # RecvOk ''Failed to get files'' # []
      \<and> length ''ack'' \<le> BUFFER_SIZE \<and> length ''Failed to get files'' \<le> BUFFER_SIZE
      \<and> tx_ok (socks ?M Client) = [] \<and> rx (socks ?M Client) = RecvOk ''ack'' # []
      \<and> length ''ack'' \<le> BUFFER_SIZE"
    by (simp add: coordinator_def connected_def world_of_def set_sock_def peer_sends_def)
  have tx0: "tx (socks ?M Client) = []"
    by (simp add: coordinator_def connected_def world_of_def set_sock_def peer_sends_def)
  from missing_directory_lists_like_empty [where ?t1.0 = ?t1 and ?t2.0 = ?t2 and dir = "''docs''"
      and m = ?M and ?a1.0 = "''ack''" and ?a2.0 = "''ack''" and ?a3.0 = "''ack''"
      and ?answer1.0 = "''Failed to get files''" and ?answer2.0 = "''Failed to get files''"
      and ?rest1.0 = "[]" and ?rest2.0 = "[]" and ?rest3.0 = "[]",
      THEN conjunct2, THEN conjunct2, THEN conjunct2] h2 h3
  have "(\<exists>w'. smain_display_files (?M\<lparr>fs := ?t1\<rparr>) Client ''docs'' = Inr (-1, w')
          \<and> tx (socks w' Client) = tx (socks ?M Client) @ [''0'']
          \<and> rx (socks w' Client) = [] \<and> fs w' = ?t1)
      \<and> (\<exists>w'. smain_display_files (?M\<lparr>fs := ?t2\<rparr>) Client ''docs'' = Inr (-1, w')
          \<and> tx (socks w' Client) = tx (socks ?M Client) @ [''0'']
          \<and> rx (socks w' Client) = [] \<and> fs w' = ?t2)"
    by blast
  then have zero: "(\<exists>w'. smain_display_files (?M\<lparr>fs := ?t1\<rparr>) Client ''docs'' = Inr (-1, w')
          \<and> tx (socks w' Client) = [''0''] \<and> rx (socks w' Client) = [])
      \<and> (\<exists>w'. smain_display_files (?M\<lparr>fs := ?t2\<rparr>) Client ''docs'' = Inr (-1, w')
          \<and> tx (socks w' Client) = [''0''] \<and> rx (socks w' Client) = [])"
    unfolding tx0 by auto
  from h1 backend sent same zero show ?thesis by simp
qed

subsection \<open>The argument count\<close>

text \<open>
  C4, as the claim states it: a command with the wrong number of arguments reaches no
  store operation and gets an error reply. The servers do not look at the count.
  \<open>rmfile\<close> takes one argument; sent with two, it is dispatched all the same: the backend
  and the coordinator delete the file named first and reply \<open>File removed\<close>.
\<close>

theorem wrong_arity_reaches_store:
  "tokenize_command ''rmfile a.pdf b.pdf'' = [''rmfile'', ''a.pdf'', ''b.pdf'']
   \<and> arity ''rmfile'' = Some 1
   \<and> observe Client (spdf_process_command
        (connected (Dir [(''spdf'', Dir [(''a.pdf'', Reg ''x'')])]) Client []) Client ''rmfile a.pdf b.pdf'')
      = Inr ([c_literal ''File removed'' 13], [], Dir [(''spdf'', Dir [])])
   \<and> observe Client (smain_process_command
        (connected (Dir [(''smain'', Dir [(''a.c'', Reg ''x'')])]) Client []) Client ''rmfile a.c b.c'')
      = Inr ([''ack'', c_literal ''File removed'' 13], [], Dir [(''smain'', Dir [])])"
  by (simp add: arity_def observe_def spdf_process_command_def smain_process_command_def
      tokenize_command_def arg_def and_then_def spdf_process_rmfile_def smain_process_rmfile_def
      spdf_remove_file_def smain_remove_file_def remove_path_def components_def snprintf256_def
      reply_def send_def set_sock_def connected_def world_of_def peer_sends_def hung_up_def
      c_literal_def Let_def)

text \<open>
  C4, amended. A server takes the operation from the first token alone. A command of at
  most five tokens whose first token names an operation, and which has at least the
  arguments of that operation, is handled exactly as the command without its extra
  tokens. A first token that names no operation gets the reply \<open>Invalid command\<close> and
  nothing else happens.
\<close>

theorem dispatch_by_first_token:
  "(tokenize_command cmd = name # args \<and> length args \<le> 4 \<and> arity name = Some k \<and> k \<le> length args
      \<and> tokenize_command cmd' = name # take k args \<longrightarrow>
      spdf_process_command w d cmd = spdf_process_command w d cmd'
      \<and> smain_process_command w d cmd = smain_process_command w d cmd')
   \<and> (tokenize_command cmd = name # args \<and> length args \<le> 4 \<and> arity name = None \<longrightarrow>
      spdf_process_command w d cmd = Inr (snd (send w d ''Invalid command''))
      \<and> smain_process_command w d cmd = Inr (snd (send w d ''Invalid command'')))"
proof (intro conjI impI)
  assume h: "tokenize_command cmd = name # args \<and> length args \<le> 4 \<and> arity name = Some k
      \<and> k \<le> length args \<and> tokenize_command cmd' = name # take k args"
  then show "spdf_process_command w d cmd = spdf_process_command w d cmd'"
    by (intro spdf_extra_arguments [where name = name and args = args and k = k]) simp_all
  from h show "smain_process_command w d cmd = smain_process_command w d cmd'"
    by (intro smain_extra_arguments [where name = name and args = args and k = k]) simp_all
next
  assume h: "tokenize_command cmd = name # args \<and> length args \<le> 4 \<and> arity name = None"
  then show "spdf_process_command w d cmd = Inr (snd (send w d ''Invalid command''))"
    by (intro unknown_command(1) [where name = name and args = args]) simp_all
  from h show "smain_process_command w d cmd = Inr (snd (send w d ''Invalid command''))"
    by (intro unknown_command(2) [where name = name and args = args]) simp_all
qed

theorem dispatch_by_first_token_witness:
  "spdf_process_command (connected (Dir [(''spdf'', Dir [(''a.pdf'', Reg ''x'')])]) Client []) Client
       ''rmfile a.pdf b.pdf''
     = spdf_process_command (connected (Dir [(''spdf'', Dir [(''a.pdf'', Reg ''x'')])]) Client []) Client
       ''rmfile a.pdf''
   \<and> smain_process_command (connected (Dir [(''spdf'', Dir [(''a.pdf'', Reg ''x'')])]) Client []) Client
       ''rmfile a.pdf b.pdf''
     = smain_process_command (connected (Dir [(''spdf'', Dir [(''a.pdf'', Reg ''x'')])]) Client []) Client
       ''rmfile a.pdf''
   \<and> observe Client (spdf_process_command
         (connected (Dir [(''spdf'', Dir [(''a.pdf'', Reg ''x'')])]) Client []) Client ''list a.pdf'')
     = Inr ([''Invalid command''], [], Dir [(''spdf'', Dir [(''a.pdf'', Reg ''x'')])])
   \<and> observe Client (smain_process_command
         (connected (Dir [(''spdf'', Dir [(''a.pdf'', Reg ''x'')])]) Client []) Client ''list a.pdf'')
     = Inr ([''Invalid command''], [], Dir [(''spdf'', Dir [(''a.pdf'', Reg ''x'')])])"
proof -
  let ?w = "connected (Dir [(''spdf'', Dir [(''a.pdf'', Reg ''x'')])]) Client []"
  have extra: "tokenize_command ''rmfile a.pdf b.pdf'' = ''rmfile'' # [''a.pdf'', ''b.pdf'']
      \<and> length [''a.pdf'', ''b.pdf''] \<le> 4 \<and> arity ''rmfile'' = Some 1 \<and> 1 \<le> length [''a.pdf'', ''b.pdf'']
      \<and> tokenize_command ''rmfile a.pdf'' = ''rmfile'' # take 1 [''a.pdf'', ''b.pdf'']"
    by (simp add: tokenize_command_def arity_def)
  have other: "tokenize_command ''list a.pdf'' = ''list'' # [''a.pdf''] \<and> length [''a.pdf''] \<le> 4
      \<and> arity ''list'' = None"
    by (simp add: tokenize_command_def arity_def)
  from dispatch_by_first_token [where cmd = "''rmfile a.pdf b.pdf''" and name = "''rmfile''"
      and args = "[''a.pdf'', ''b.pdf'']" and k = 1 and cmd' = "''rmfile a.pdf''" and w = ?w and d = Client]
    extra
  have one: "spdf_process_command ?w Client ''rmfile a.pdf b.pdf'' = spdf_process_command ?w Client ''rmfile a.pdf''"
    and two: "smain_process_command ?w Client ''rmfile a.pdf b.pdf'' = smain_process_command ?w Client ''rmfile a.pdf''"
    by blast+
  from dispatch_by_first_token [where cmd = "''list a.pdf''" and name = "''list''"
      and args = "[''a.pdf'']" and w = ?w and d = Client] other
  have "spdf_process_command ?w Client ''list a.pdf'' = Inr (snd (send ?w Client ''Invalid command''))"
    and "smain_process_command ?w Client ''list a.pdf'' = Inr (snd (send ?w Client ''Invalid command''))"
    by blast+
  with one two show ?thesis
    by (simp add: observe_def send_def set_sock_def connected_def world_of_def peer_sends_def)
qed

subsection \<open>The sized transfer\<close>

text \<open>
  C1. The sender is \<open>send_file\<close> on a file with the bytes \<open>B\<close>, whose length the \<open>int\<close>
  \<open>file_size\<close> can hold; the receiver is the coordinator's \<open>receive_file\<close> with the
  declared size \<open>length B\<close>. The channel is a loopback: the sender reads the two
  acknowledgements the receiving side writes, and the receiver's reads are any cutting
  \<open>segs\<close>, into pieces a \<open>recv\<close> can return, of the body the sender wrote after the
  announcement. Then \<open>send_file\<close> returns 1, the size it announced reads back as
  \<open>length B\<close>, and \<open>receive_file\<close> returns 0 with exactly \<open>B\<close> in the file it created and
  the terminal \<open>ack\<close> written.
\<close>

theorem sized_transfer_round_trip:
  assumes "fopen_rb (fs S) src = Some B"
      and "int (length B) < 2 ^ 31"
      and "tx_ok (socks S a) = []"
      and "rx (socks S a) = RecvOk ''ack'' # RecvOk ''ack'' # rest_s"
      and "concat segs = concat (tl (drop (length (tx (socks S a))) (tx (socks (snd (send_file S a src)) a))))"
      and "\<forall>seg \<in> set segs. seg \<noteq> [] \<and> length seg \<le> BUFFER_SIZE"
      and "rx (socks R b) = map RecvOk segs @ rest_r"
      and "tx_ok (socks R b) = []"
      and "create_directories (fs R) dir = (0, t1)"
      and "fopen_wb t1 (snprintf256 (dir @ ''/'' @ name)) = Some t2"
  shows "fst (send_file S a src) = 1
       \<and> atoi (hd (drop (length (tx (socks S a))) (tx (socks (snd (send_file S a src)) a)))) = int (length B)
       \<and> (\<exists>R'. smain_receive_file R b dir name (int (length B)) = Inr (0, R')
             \<and> fopen_rb (fs R') (snprintf256 (dir @ ''/'' @ name)) = Some B
             \<and> tx (socks R' b) = tx (socks R b) @ [''ack''] \<and> rx (socks R' b) = rest_r)"
proof -
  from assms have sent: "fst (send_file S a src) = 1"
    and frames: "tx (socks (snd (send_file S a src)) a) = tx (socks S a) @ show_int (int (length B)) # slices B"
    by (simp_all add: send_file_sends)
  with assms(5) have body: "concat segs = B"
    by (simp add: concat_slices)
  from assms body have "\<exists>R'. smain_receive_file R b dir name (int (length B)) = Inr (0, R')
           \<and> fs R' = foldl (\<lambda>t seg. fwrite t (snprintf256 (dir @ ''/'' @ name)) seg) t2 segs
           \<and> tx (socks R' b) = tx (socks R b) @ [''ack''] \<and> rx (socks R' b) = rest_r"
    by (intro smain_receive_file_stores) simp_all
  then obtain R' where stored: "smain_receive_file R b dir name (int (length B)) = Inr (0, R')"
    and fsR: "fs R' = foldl (\<lambda>t seg. fwrite t (snprintf256 (dir @ ''/'' @ name)) seg) t2 segs"
    and socksR: "tx (socks R' b) = tx (socks R b) @ [''ack'']" "rx (socks R' b) = rest_r"
    by blast
  from assms(10) have "fopen_rb t2 (snprintf256 (dir @ ''/'' @ name)) = Some []"
    by (rule fopen_rb_fopen_wb)
  then have "fopen_rb (foldl (\<lambda>t seg. fwrite t (snprintf256 (dir @ ''/'' @ name)) seg) t2 segs)
      (snprintf256 (dir @ ''/'' @ name)) = Some ([] @ concat segs)"
    by (rule fopen_rb_fwrite_all)
  moreover from assms(2) have "atoi (show_int (int (length B))) = int (length B)"
    by (intro atoi_show_int) simp_all
  ultimately show ?thesis
    using sent frames stored fsR socksR body by simp
qed


theorem sized_transfer_round_trip_witness:
  "fst (send_file (connected (Dir [(''spdf'', Dir [(''r.pdf'', Reg ''hello'')])]) Client [''ack'', ''ack''])
          Client ''./spdf/r.pdf'') = 1
   \<and> tx (socks (snd (send_file (connected (Dir [(''spdf'', Dir [(''r.pdf'', Reg ''hello'')])]) Client [''ack'', ''ack''])
          Client ''./spdf/r.pdf'')) Client) = [''5'', ''hello'']
   \<and> (\<exists>R'. smain_receive_file (connected (Dir []) Spdf [''he'', ''llo'', ''File downloaded'']) Spdf
               ''./smain/'' ''r.pdf'' 5 = Inr (0, R')
         \<and> fopen_rb (fs R') ''./smain/r.pdf'' = Some ''hello''
         \<and> tx (socks R' Spdf) = [''ack''] \<and> rx (socks R' Spdf) = [RecvOk ''File downloaded''])"
proof -
  let ?S = "connected (Dir [(''spdf'', Dir [(''r.pdf'', Reg ''hello'')])]) Client [''ack'', ''ack'']"
  let ?R = "connected (Dir []) Spdf [''he'', ''llo'', ''File downloaded'']"
  have src_file: "fopen_rb (fs ?S) ''./spdf/r.pdf'' = Some ''hello''"
    by (simp add: fopen_rb_def components_def connected_def world_of_def set_sock_def)
  have len: "int (length ''hello'') < 2 ^ 31" by simp
  have s_ok: "tx_ok (socks ?S Client) = []"
    and s_rx: "rx (socks ?S Client) = RecvOk ''ack'' # RecvOk ''ack'' # []"
    and s_tx: "tx (socks ?S Client) = []"
    by (simp_all add: connected_def world_of_def set_sock_def peer_sends_def)
  have frames: "tx (socks (snd (send_file ?S Client ''./spdf/r.pdf'')) Client) = [''5'', ''hello'']"
    using send_file_sends(2)[OF src_file len s_ok s_rx] s_tx
    by (simp add: slices.simps show_int_def show_nat.simps digit_char_def)
  have loop: "concat [''he'', ''llo''] = concat (tl (drop (length (tx (socks ?S Client)))
      (tx (socks (snd (send_file ?S Client ''./spdf/r.pdf'')) Client))))"
    by (simp add: frames s_tx)
  have segs: "\<forall>seg \<in> set [''he'', ''llo'']. seg \<noteq> [] \<and> length seg \<le> BUFFER_SIZE" by simp
  have r_rx: "rx (socks ?R Spdf) = map RecvOk [''he'', ''llo''] @ [RecvOk ''File downloaded'']"
    and r_ok: "tx_ok (socks ?R Spdf) = []"
    and r_tx: "tx (socks ?R Spdf) = []"
    by (simp_all add: connected_def world_of_def set_sock_def peer_sends_def)
  have dirs: "create_directories (fs ?R) ''./smain/'' = (0, Dir [(''smain'', Dir [])])"
    by (simp add: create_directories_def snprintf256_def mkdir_def components_def Let_def
        connected_def world_of_def set_sock_def)
  have made: "fopen_wb (Dir [(''smain'', Dir [])]) (snprintf256 (''./smain/'' @ ''/'' @ ''r.pdf''))
      = Some (Dir [(''smain'', Dir [(''r.pdf'', Reg [])])])"
    by (simp add: fopen_wb_def snprintf256_def components_def Let_def)
  have same: "fopen_rb t (snprintf256 (''./smain/'' @ ''/'' @ ''r.pdf'')) = fopen_rb t ''./smain/r.pdf''" for t
    by (simp add: fopen_rb_def snprintf256_def components_def)
  from sized_transfer_round_trip [OF src_file len s_ok s_rx loop segs r_rx r_ok dirs made] frames r_tx same
  show ?thesis by simp
qed

subsection \<open>Routing by extension\<close>



subsection \<open>Archives\<close>

text \<open>
  C7, as stated, does not hold: for the types \<open>txt\<close> and \<open>pdf\<close> the coordinator
  fetches nothing from the backend. The backend builds \<open>./tar/pdf.tar\<close> in its own
  working directory and answers with one line. The coordinator writes only \<open>dtar\<close>
  to the backend, reads the acknowledgement and that line, and then streams the file
  \<open>./tar/pdf.tar\<close> of its own working directory. When the two directories differ,
  the client receives the coordinator's file (here \<open>OLD\<close>), not the archive the
  backend has just built (here \<open>BUNDLE\<close>).
\<close>

theorem archive_not_fetched_from_backend:
  "observe Client (spdf_process_command
      (with_tar (connected (Dir [(''spdf'', Dir [(''r.pdf'', Reg ''x'')]), (''tar'', Dir [])]) Client [])
         ''BUNDLE'') Client ''dtar'')
     = Inr ([''Tar file downloaded''], [],
            Dir [(''spdf'', Dir [(''r.pdf'', Reg ''x'')]), (''tar'', Dir [(''pdf.tar'', Reg ''BUNDLE'')])])
   \<and> observe Client (smain_process_command
      (coordinator (Dir [(''smain'', Dir []), (''tar'', Dir [(''pdf.tar'', Reg ''OLD'')])])
         [''ack'', ''ack''] [''ack'', ''Tar file downloaded''] []) Client ''dtar pdf'')
     = Inr ([''3'', ''OLD'', ''Tar file downloaded''], [],
            Dir [(''smain'', Dir []), (''tar'', Dir [(''pdf.tar'', Reg ''OLD'')])])
   \<and> observe Spdf (smain_process_command
      (coordinator (Dir [(''smain'', Dir []), (''tar'', Dir [(''pdf.tar'', Reg ''OLD'')])])
         [''ack'', ''ack''] [''ack'', ''Tar file downloaded''] []) Client ''dtar pdf'')
     = Inr ([''dtar''], [],
            Dir [(''smain'', Dir []), (''tar'', Dir [(''pdf.tar'', Reg ''OLD'')])])"
proof -
  let ?M = "coordinator (Dir [(''smain'', Dir []), (''tar'', Dir [(''pdf.tar'', Reg ''OLD'')])])
         [''ack'', ''ack''] [''ack'', ''Tar file downloaded''] []"
  have backend: "observe Client (spdf_process_command
      (with_tar (connected (Dir [(''spdf'', Dir [(''r.pdf'', Reg ''x'')]), (''tar'', Dir [])]) Client [])
         ''BUNDLE'') Client ''dtar'')
     = Inr ([''Tar file downloaded''], [],
            Dir [(''spdf'', Dir [(''r.pdf'', Reg ''x'')]), (''tar'', Dir [(''pdf.tar'', Reg ''BUNDLE'')])])"
    by (simp add: observe_def with_tar_def spdf_process_command_def tokenize_command_def arg_def
        and_then_def spdf_process_dtar_def create_tar_def fopen_wb_def fopen_rb_def fwrite_def
        components_def send_def set_sock_def connected_def world_of_def peer_sends_def hung_up_def
        reply_def c_literal_def Let_def)
  have socks: "tx_ok (socks ?M Spdf) = []" "rx (socks ?M Spdf) = RecvOk ''ack'' # RecvOk ''Tar file downloaded'' # []"
    "tx_ok (socks ?M Client) = []" "rx (socks ?M Client) = RecvOk ''ack'' # RecvOk ''ack'' # []"
    "tx (socks ?M Client) = []" "tx (socks ?M Spdf) = []"
    "fs ?M = Dir [(''smain'', Dir []), (''tar'', Dir [(''pdf.tar'', Reg ''OLD'')])]"
    by (simp_all add: coordinator_def connected_def world_of_def set_sock_def peer_sends_def)
  have own: "fopen_rb (Dir [(''smain'', Dir []), (''tar'', Dir [(''pdf.tar'', Reg ''OLD'')])])
      (snprintf256 ''./tar/pdf.tar'') = Some ''OLD''"
    by (simp add: fopen_rb_def components_def snprintf256_def)
  have "\<exists>w'. smain_process_dtar ?M Client [''dtar'', ''pdf''] = Inr (1, w')
           \<and> tx (socks w' Client) = tx (socks ?M Client) @ show_int (int (length ''OLD'')) # slices ''OLD''
           \<and> rx (socks w' Client) = [] \<and> tx_ok (socks w' Client) = []
           \<and> tx (socks w' Spdf) = tx (socks ?M Spdf) @ [''dtar''] \<and> rx (socks w' Spdf) = []
           \<and> fs w' = fs ?M"
    by (rule dtar_backend [where ?b1.0 = "''ack''" and ?b2.0 = "''Tar file downloaded''"
          and ?a1.0 = "''ack''" and ?a2.0 = "''ack''"])
       (simp_all add: socks own)
  then obtain w' where run: "smain_process_dtar ?M Client [''dtar'', ''pdf''] = Inr (1, w')"
    and client: "tx (socks w' Client) = [''3'', ''OLD'']" "rx (socks w' Client) = []"
      "tx_ok (socks w' Client) = []"
    and spdf: "tx (socks w' Spdf) = [''dtar'']" "rx (socks w' Spdf) = []"
    and fsw: "fs w' = Dir [(''smain'', Dir []), (''tar'', Dir [(''pdf.tar'', Reg ''OLD'')])]"
    by (auto simp: socks slices.simps show_int_def show_nat.simps digit_char_def)
  have tok: "tokenize_command ''dtar pdf'' = [''dtar'', ''pdf'']"
    by (simp add: tokenize_command_def)
  have cmd: "smain_process_command ?M Client ''dtar pdf''
      = Inr (snd (send w' Client ''Tar file downloaded''))"
    using run by (simp add: smain_process_command_def tok arg_def and_then_def reply_def c_literal_def)
  show ?thesis
    using backend cmd client spdf fsw
    by (simp add: observe_def send_def set_sock_def Let_def)
qed

text \<open>
  C7, amended. For the types \<open>txt\<close> and \<open>pdf\<close> the coordinator writes the bare
  command \<open>dtar\<close> to the matching backend, reads its acknowledgement and one further
  reply, and then streams to the client the file \<open>./tar/<type>.tar\<close> of its own working
  directory, size first; it writes nothing else to the backend and changes no file. For
  the type \<open>c\<close> it builds \<open>./tar/c.tar\<close> from \<open>./smain\<close> itself, streams it and
  touches no backend. When the coordinator runs on the file system the backend has left
  behind, the bytes streamed are the archive the backend built. In every case the bytes
  reach the client over the coordinator's socket.
\<close>

theorem archive_streamed_from_own_directory:
  "((file_type = ''txt'' \<or> file_type = ''pdf'') \<and> s = (if file_type = ''txt'' then Stext else Spdf)
      \<and> tx_ok (socks w s) = [] \<and> rx (socks w s) = RecvOk b1 # RecvOk b2 # b_rest
      \<and> length b1 \<le> BUFFER_SIZE \<and> length b2 \<le> BUFFER_SIZE
      \<and> tx_ok (socks w Client) = [] \<and> rx (socks w Client) = RecvOk a1 # RecvOk a2 # c_rest
      \<and> length a1 \<le> BUFFER_SIZE \<and> length a2 \<le> BUFFER_SIZE
      \<and> fopen_rb (fs w) (snprintf256 (''./tar/'' @ file_type @ ''.tar'')) = Some content
      \<and> int (length content) < 2 ^ 31 \<longrightarrow>
      (\<exists>w'. smain_process_dtar w Client [c, file_type] = Inr (1, w')
         \<and> tx (socks w' Client) = tx (socks w Client) @ show_int (int (length content)) # slices content
         \<and> tx (socks w' s) = tx (socks w s) @ [''dtar''] \<and> rx (socks w' s) = b_rest
         \<and> fs w' = fs w))
   \<and> (tar_util m (fs m) ''./smain'' = Some bundle \<and> fopen_wb (fs m) ''./tar/c.tar'' = Some t1
      \<and> int (length bundle) < 2 ^ 31
      \<and> tx_ok (socks m Client) = [] \<and> rx (socks m Client) = RecvOk a1 # RecvOk a2 # c_rest
      \<and> length a1 \<le> BUFFER_SIZE \<and> length a2 \<le> BUFFER_SIZE \<longrightarrow>
      (\<exists>m'. smain_process_dtar m Client [c, ''c''] = Inr (1, m')
         \<and> tx (socks m' Client) = tx (socks m Client) @ show_int (int (length bundle)) # slices bundle
         \<and> socks m' Stext = socks m Stext \<and> socks m' Spdf = socks m Spdf
         \<and> fopen_rb (fs m') ''./tar/c.tar'' = Some bundle))
   \<and> (spdf_process_dtar b d0 cmds = Inr (1, b') \<and> tar_util b (fs b) ''./spdf'' = Some made
      \<and> fs v = fs b' \<and> int (length made) < 2 ^ 31
      \<and> tx_ok (socks v Spdf) = [] \<and> rx (socks v Spdf) = RecvOk b1 # RecvOk b2 # b_rest
      \<and> length b1 \<le> BUFFER_SIZE \<and> length b2 \<le> BUFFER_SIZE
      \<and> tx_ok (socks v Client) = [] \<and> rx (socks v Client) = RecvOk a1 # RecvOk a2 # c_rest
      \<and> length a1 \<le> BUFFER_SIZE \<and> length a2 \<le> BUFFER_SIZE \<longrightarrow>
      (\<exists>v'. smain_process_dtar v Client [c, ''pdf''] = Inr (1, v')
         \<and> tx (socks v' Client) = tx (socks v Client) @ show_int (int (length made)) # slices made))"
proof (intro conjI impI)
  assume h: "(file_type = ''txt'' \<or> file_type = ''pdf'') \<and> s = (if file_type = ''txt'' then Stext else Spdf)
      \<and> tx_ok (socks w s) = [] \<and> rx (socks w s) = RecvOk b1 # RecvOk b2 # b_rest
      \<and> length b1 \<le> BUFFER_SIZE \<and> length b2 \<le> BUFFER_SIZE
      \<and> tx_ok (socks w Client) = [] \<and> rx (socks w Client) = RecvOk a1 # RecvOk a2 # c_rest
      \<and> length a1 \<le> BUFFER_SIZE \<and> length a2 \<le> BUFFER_SIZE
      \<and> fopen_rb (fs w) (snprintf256 (''./tar/'' @ file_type @ ''.tar'')) = Some content
      \<and> int (length content) < 2 ^ 31"
  have "\<exists>w'. smain_process_dtar w Client [c, file_type] = Inr (1, w')
           \<and> tx (socks w' Client) = tx (socks w Client) @ show_int (int (length content)) # slices content
           \<and> rx (socks w' Client) = c_rest \<and> tx_ok (socks w' Client) = []
           \<and> tx (socks w' s) = tx (socks w s) @ [''dtar''] \<and> rx (socks w' s) = b_rest
           \<and> fs w' = fs w"
    by (rule dtar_backend [where ?b1.0 = b1 and ?b2.0 = b2 and ?a1.0 = a1 and ?a2.0 = a2])
       (use h in blast)+
  then show "\<exists>w'. smain_process_dtar w Client [c, file_type] = Inr (1, w')
         \<and> tx (socks w' Client) = tx (socks w Client) @ show_int (int (length content)) # slices content
         \<and> tx (socks w' s) = tx (socks w s) @ [''dtar''] \<and> rx (socks w' s) = b_rest
         \<and> fs w' = fs w"
    by blast
next
  assume h: "tar_util m (fs m) ''./smain'' = Some bundle \<and> fopen_wb (fs m) ''./tar/c.tar'' = Some t1
      \<and> int (length bundle) < 2 ^ 31
      \<and> tx_ok (socks m Client) = [] \<and> rx (socks m Client) = RecvOk a1 # RecvOk a2 # c_rest
      \<and> length a1 \<le> BUFFER_SIZE \<and> length a2 \<le> BUFFER_SIZE"
  show "\<exists>m'. smain_process_dtar m Client [c, ''c''] = Inr (1, m')
         \<and> tx (socks m' Client) = tx (socks m Client) @ show_int (int (length bundle)) # slices bundle
         \<and> socks m' Stext = socks m Stext \<and> socks m' Spdf = socks m Spdf
         \<and> fopen_rb (fs m') ''./tar/c.tar'' = Some bundle"
    by (rule dtar_local [where ?a1.0 = a1 and ?a2.0 = a2 and ?t1.0 = t1]) (use h in blast)+
next
  assume h: "spdf_process_dtar b d0 cmds = Inr (1, b') \<and> tar_util b (fs b) ''./spdf'' = Some made
      \<and> fs v = fs b' \<and> int (length made) < 2 ^ 31
      \<and> tx_ok (socks v Spdf) = [] \<and> rx (socks v Spdf) = RecvOk b1 # RecvOk b2 # b_rest
      \<and> length b1 \<le> BUFFER_SIZE \<and> length b2 \<le> BUFFER_SIZE
      \<and> tx_ok (socks v Client) = [] \<and> rx (socks v Client) = RecvOk a1 # RecvOk a2 # c_rest
      \<and> length a1 \<le> BUFFER_SIZE \<and> length a2 \<le> BUFFER_SIZE"
  then have "fopen_rb (fs b') ''./tar/pdf.tar'' = Some made"
    by (intro spdf_builds_archive [where b = b and ?d0.0 = d0 and cmds = cmds]) blast+
  with h have own: "fopen_rb (fs v) (snprintf256 (''./tar/'' @ ''pdf'' @ ''.tar'')) = Some made"
    by (simp add: snprintf256_def)
  have "\<exists>w'. smain_process_dtar v Client [c, ''pdf''] = Inr (1, w')
           \<and> tx (socks w' Client) = tx (socks v Client) @ show_int (int (length made)) # slices made
           \<and> rx (socks w' Client) = c_rest \<and> tx_ok (socks w' Client) = []
           \<and> tx (socks w' Spdf) = tx (socks v Spdf) @ [''dtar''] \<and> rx (socks w' Spdf) = b_rest
           \<and> fs w' = fs v"
    by (rule dtar_backend [where ?b1.0 = b1 and ?b2.0 = b2 and ?a1.0 = a1 and ?a2.0 = a2])
       (use h own in simp_all)
  then show "\<exists>v'. smain_process_dtar v Client [c, ''pdf''] = Inr (1, v')
         \<and> tx (socks v' Client) = tx (socks v Client) @ show_int (int (length made)) # slices made"
    by blast
qed

theorem archive_streamed_from_own_directory_witness:
  "(\<exists>w'. smain_process_dtar
        (coordinator (Dir [(''smain'', Dir []), (''tar'', Dir [(''txt.tar'', Reg ''OLD'')])])
           [''ack'', ''ack''] [] [''ack'', ''Tar file downloaded'']) Client [''dtar'', ''txt''] = Inr (1, w')
       \<and> tx (socks w' Client) = [''3'', ''OLD''] \<and> tx (socks w' Stext) = [''dtar''])
   \<and> (\<exists>m'. smain_process_dtar
        (with_tar (coordinator (Dir [(''smain'', Dir [(''m.c'', Reg ''x'')]), (''tar'', Dir [])])
           [''ack'', ''ack''] [] []) ''CBUNDLE'') Client [''dtar'', ''c''] = Inr (1, m')
       \<and> tx (socks m' Client) = [''7'', ''CBUNDLE'']
       \<and> fopen_rb (fs m') ''./tar/c.tar'' = Some ''CBUNDLE'')
   \<and> (\<exists>v'. smain_process_dtar
        (coordinator (Dir [(''spdf'', Dir [(''r.pdf'', Reg ''x'')]), (''tar'', Dir [(''pdf.tar'', Reg ''BUNDLE'')])])
           [''ack'', ''ack''] [''ack'', ''Tar file downloaded''] []) Client [''dtar'', ''pdf''] = Inr (1, v')
       \<and> tx (socks v' Client) = [''6'', ''BUNDLE''])"
proof -
  let ?W = "coordinator (Dir [(''smain'', Dir []), (''tar'', Dir [(''txt.tar'', Reg ''OLD'')])])
           [''ack'', ''ack''] [] [''ack'', ''Tar file downloaded'']"
  let ?M = "with_tar (coordinator (Dir [(''smain'', Dir [(''m.c'', Reg ''x'')]), (''tar'', Dir [])])
           [''ack'', ''ack''] [] []) ''CBUNDLE''"
  let ?B = "with_tar (connected (Dir [(''spdf'', Dir [(''r.pdf'', Reg ''x'')]), (''tar'', Dir [])]) Client [])
           ''BUNDLE''"
  let ?B' = "?B\<lparr>fs := Dir [(''spdf'', Dir [(''r.pdf'', Reg ''x'')]), (''tar'', Dir [(''pdf.tar'', Reg ''BUNDLE'')])]\<rparr>"
  let ?V = "coordinator (Dir [(''spdf'', Dir [(''r.pdf'', Reg ''x'')]), (''tar'', Dir [(''pdf.tar'', Reg ''BUNDLE'')])])
           [''ack'', ''ack''] [''ack'', ''Tar file downloaded''] []"
  have w: "(''txt'' = ''txt'' \<or> ''txt'' = ''pdf'') \<and> Stext = (if ''txt'' = ''txt'' then Stext else Spdf)
      \<and> tx_ok (socks ?W Stext) = [] \<and> rx (socks ?W Stext) = RecvOk ''ack'' # RecvOk ''Tar file downloaded'' # []
      \<and> length ''ack'' \<le> BUFFER_SIZE \<and> length ''Tar file downloaded'' \<le> BUFFER_SIZE
      \<and> tx_ok (socks ?W Client) = [] \<and> rx (socks ?W Client) = RecvOk ''ack'' # RecvOk ''ack'' # []
      \<and> length ''ack'' \<le> BUFFER_SIZE \<and> length ''ack'' \<le> BUFFER_SIZE
      \<and> fopen_rb (fs ?W) (snprintf256 (''./tar/'' @ ''txt'' @ ''.tar'')) = Some ''OLD''
      \<and> int (length ''OLD'') < 2 ^ 31"
    by (simp add: coordinator_def connected_def world_of_def set_sock_def peer_sends_def
        fopen_rb_def components_def snprintf256_def)
  have m: "tar_util ?M (fs ?M) ''./smain'' = Some ''CBUNDLE''
      \<and> fopen_wb (fs ?M) ''./tar/c.tar''
          = Some (Dir [(''smain'', Dir [(''m.c'', Reg ''x'')]), (''tar'', Dir [(''c.tar'', Reg [])])])
      \<and> int (length ''CBUNDLE'') < 2 ^ 31
      \<and> tx_ok (socks ?M Client) = [] \<and> rx (socks ?M Client) = RecvOk ''ack'' # RecvOk ''ack'' # []
      \<and> length ''ack'' \<le> BUFFER_SIZE \<and> length ''ack'' \<le> BUFFER_SIZE"
    by (simp add: with_tar_def coordinator_def connected_def world_of_def set_sock_def peer_sends_def
        fopen_wb_def components_def Let_def)
  have v: "spdf_process_dtar ?B Client [''dtar''] = Inr (1, ?B') \<and> tar_util ?B (fs ?B) ''./spdf'' = Some ''BUNDLE''
      \<and> fs ?V = fs ?B' \<and> int (length ''BUNDLE'') < 2 ^ 31
      \<and> tx_ok (socks ?V Spdf) = [] \<and> rx (socks ?V Spdf) = RecvOk ''ack'' # RecvOk ''Tar file downloaded'' # []
      \<and> length ''ack'' \<le> BUFFER_SIZE \<and> length ''Tar file downloaded'' \<le> BUFFER_SIZE
      \<and> tx_ok (socks ?V Client) = [] \<and> rx (socks ?V Client) = RecvOk ''ack'' # RecvOk ''ack'' # []
      \<and> length ''ack'' \<le> BUFFER_SIZE \<and> length ''ack'' \<le> BUFFER_SIZE"
    by (simp add: spdf_process_dtar_def create_tar_def fopen_wb_def fwrite_def components_def Let_def
        with_tar_def coordinator_def connected_def world_of_def set_sock_def peer_sends_def)
  have tx0: "tx (socks ?W Client) = []" "tx (socks ?W Stext) = []" "tx (socks ?M Client) = []"
    "tx (socks ?V Client) = []"
    by (simp_all add: with_tar_def coordinator_def connected_def world_of_def set_sock_def peer_sends_def)
  have frames: "show_int (int (length ''OLD'')) # slices ''OLD'' = [''3'', ''OLD'']"
    "show_int (int (length ''CBUNDLE'')) # slices ''CBUNDLE'' = [''7'', ''CBUNDLE'']"
    "show_int (int (length ''BUNDLE'')) # slices ''BUNDLE'' = [''6'', ''BUNDLE'']"
    by (simp_all add: slices.simps show_int_def show_nat.simps digit_char_def)
  have all: "((''txt'' = ''txt'' \<or> ''txt'' = ''pdf'') \<and> Stext = (if ''txt'' = ''txt'' then Stext else Spdf)
      \<and> tx_ok (socks ?W Stext) = [] \<and> rx (socks ?W Stext) = RecvOk ''ack'' # RecvOk ''Tar file downloaded'' # []
      \<and> length ''ack'' \<le> BUFFER_SIZE \<and> length ''Tar file downloaded'' \<le> BUFFER_SIZE
      \<and> tx_ok (socks ?W Client) = [] \<and> rx (socks ?W Client) = RecvOk ''ack'' # RecvOk ''ack'' # []
      \<and> length ''ack'' \<le> BUFFER_SIZE \<and> length ''ack'' \<le> BUFFER_SIZE
      \<and> fopen_rb (fs ?W) (snprintf256 (''./tar/'' @ ''txt'' @ ''.tar'')) = Some ''OLD''
      \<and> int (length ''OLD'') < 2 ^ 31 \<longrightarrow>
      (\<exists>w'. smain_process_dtar ?W Client [''dtar'', ''txt''] = Inr (1, w')
         \<and> tx (socks w' Client) = tx (socks ?W Client) @ show_int (int (length ''OLD'')) # slices ''OLD''
         \<and> tx (socks w' Stext) = tx (socks ?W Stext) @ [''dtar''] \<and> rx (socks w' Stext) = []
         \<and> fs w' = fs ?W))
   \<and> (tar_util ?M (fs ?M) ''./smain'' = Some ''CBUNDLE''
      \<and> fopen_wb (fs ?M) ''./tar/c.tar''
          = Some (Dir [(''smain'', Dir [(''m.c'', Reg ''x'')]), (''tar'', Dir [(''c.tar'', Reg [])])])
      \<and> int (length ''CBUNDLE'') < 2 ^ 31
      \<and> tx_ok (socks ?M Client) = [] \<and> rx (socks ?M Client) = RecvOk ''ack'' # RecvOk ''ack'' # []
      \<and> length ''ack'' \<le> BUFFER_SIZE \<and> length ''ack'' \<le> BUFFER_SIZE \<longrightarrow>
      (\<exists>m'. smain_process_dtar ?M Client [''dtar'', ''c''] = Inr (1, m')
         \<and> tx (socks m' Client) = tx (socks ?M Client) @ show_int (int (length ''CBUNDLE'')) # slices ''CBUNDLE''
         \<and> socks m' Stext = socks ?M Stext \<and> socks m' Spdf = socks ?M Spdf
         \<and> fopen_rb (fs m') ''./tar/c.tar'' = Some ''CBUNDLE''))
   \<and> (spdf_process_dtar ?B Client [''dtar''] = Inr (1, ?B') \<and> tar_util ?B (fs ?B) ''./spdf'' = Some ''BUNDLE''
      \<and> fs ?V = fs ?B' \<and> int (length ''BUNDLE'') < 2 ^ 31
      \<and> tx_ok (socks ?V Spdf) = [] \<and> rx (socks ?V Spdf) = RecvOk ''ack'' # RecvOk ''Tar file downloaded'' # []
      \<and> length ''ack'' \<le> BUFFER_SIZE \<and> length ''Tar file downloaded'' \<le> BUFFER_SIZE
      \<and> tx_ok (socks ?V Client) = [] \<and> rx (socks ?V Client) = RecvOk ''ack'' # RecvOk ''ack'' # []
      \<and> length ''ack'' \<le> BUFFER_SIZE \<and> length ''ack'' \<le> BUFFER_SIZE \<longrightarrow>
      (\<exists>v'. smain_process_dtar ?V Client [''dtar'', ''pdf''] = Inr (1, v')
         \<and> tx (socks v' Client) = tx (socks ?V Client) @ show_int (int (length ''BUNDLE'')) # slices ''BUNDLE''))"
    by (rule archive_streamed_from_own_directory)
  from all w have one: "\<exists>w'. smain_process_dtar ?W Client [''dtar'', ''txt''] = Inr (1, w')
         \<and> tx (socks w' Client) = tx (socks ?W Client) @ show_int (int (length ''OLD'')) # slices ''OLD''
         \<and> tx (socks w' Stext) = tx (socks ?W Stext) @ [''dtar''] \<and> rx (socks w' Stext) = []
         \<and> fs w' = fs ?W"
    by blast
  from all m have two: "\<exists>m'. smain_process_dtar ?M Client [''dtar'', ''c''] = Inr (1, m')
         \<and> tx (socks m' Client) = tx (socks ?M Client) @ show_int (int (length ''CBUNDLE'')) # slices ''CBUNDLE''
         \<and> socks m' Stext = socks ?M Stext \<and> socks m' Spdf = socks ?M Spdf
         \<and> fopen_rb (fs m') ''./tar/c.tar'' = Some ''CBUNDLE''"
    by blast
  from all v have three: "\<exists>v'. smain_process_dtar ?V Client [''dtar'', ''pdf''] = Inr (1, v')
         \<and> tx (socks v' Client) = tx (socks ?V Client) @ show_int (int (length ''BUNDLE'')) # slices ''BUNDLE''"
    by blast
  from one two three show ?thesis
    unfolding tx0 frames by (simp only: append_Nil) blast
qed

end
